theory Spec2Isabelle
  imports Main
begin

section \<open>Python values and errors\<close>

text \<open>
  The JSON values that travel through the vulnerability view
  (\<^verbatim>\<open>faraday/server/api/modules/vulns.py\<close>): \<^verbatim>\<open>None\<close>, booleans, integers,
  strings, lists and dictionaries (an association list of the items).
\<close>

datatype pyval = PNone | PBool bool | PInt int | PStr string
  | PList "pyval list" | PDict "(string \<times> pyval) list"

text \<open>Python truthiness, as used by \<^verbatim>\<open>if otherfield:\<close>, \<^verbatim>\<open>if limit:\<close>, \<^verbatim>\<open>if or_filters:\<close>.\<close>

fun truthy :: "pyval \<Rightarrow> bool" where
  "truthy PNone = False"
| "truthy (PBool b) = b"
| "truthy (PInt n) = (n \<noteq> 0)"
| "truthy (PStr s) = (s \<noteq> [])"
| "truthy (PList xs) = (xs \<noteq> [])"
| "truthy (PDict kvs) = (kvs \<noteq> [])"

text \<open>The exceptions and HTTP aborts the modelled functions can end with.\<close>

datatype error =
    JSONDecodeError
  | ValidationError
  | AttributeError string
  | KeyError string
  | TypeError
  | Abort nat string
  | OtherError string

section \<open>Filter trees\<close>

text \<open>
  A node of the filter tree is a Python dict. \<^verbatim>\<open>_hostname_filters\<close> and
  \<^verbatim>\<open>_generate_filter_query\<close> read six keys of it: \<^verbatim>\<open>'or'\<close>, \<^verbatim>\<open>'and'\<close>,
  \<^verbatim>\<open>'name'\<close>, \<^verbatim>\<open>'op'\<close>, \<^verbatim>\<open>'val'\<close> and \<^verbatim>\<open>'field'\<close>. Each key is absent
  (\<open>None\<close>) or present with its value; the value of \<^verbatim>\<open>'or'\<close> and \<^verbatim>\<open>'and'\<close> is a
  list of nodes. The dicts the function builds have no other key.
\<close>

datatype search_filter = SearchFilter
  (key_or: "search_filter list option")
  (key_and: "search_filter list option")
  (key_name: "pyval option")
  (key_op: "pyval option")
  (key_val: "pyval option")
  (key_field: "pyval option")

text \<open>\<^verbatim>\<open>d.get(k)\<close>: the value, or \<^verbatim>\<open>None\<close> when the key is absent.\<close>

definition dict_get :: "pyval option \<Rightarrow> pyval" where
  "dict_get v = (case v of None \<Rightarrow> PNone | Some x \<Rightarrow> x)"

subsection \<open>\<^verbatim>\<open>VulnerabilityView._hostname_filters\<close>\<close>

text \<open>
  The \<^verbatim>\<open>for search_filter in filters\<close> loop with its two accumulators
  \<^verbatim>\<open>res_filters\<close> and \<^verbatim>\<open>hostname_filters\<close>. The three equations for a node are the
  three branches of the source, in its order: neither \<^verbatim>\<open>'or'\<close> nor \<^verbatim>\<open>'and'\<close> in the
  dict (a leaf, rebuilt key by key), \<^verbatim>\<open>'or'\<close> in the dict, \<^verbatim>\<open>'and'\<close> in the dict.
  The recursive call starts from fresh accumulators.
\<close>

fun hostname_filters_loop ::
  "search_filter list \<Rightarrow> search_filter list \<Rightarrow> search_filter list
     \<Rightarrow> search_filter list \<times> search_filter list" where
  "hostname_filters_loop [] res_filters hostname_acc = (res_filters, hostname_acc)"
| "hostname_filters_loop (SearchFilter None None n p v f # rest) res_filters hostname_acc =
     (let fieldname = dict_get n;
          operator = dict_get p;
          argument = dict_get v;
          otherfield = dict_get f;
          field_filter = SearchFilter None None (Some fieldname) (Some operator) (Some argument)
                           (if truthy otherfield then Some otherfield else None)
      in if fieldname = PStr ''hostnames''
         then hostname_filters_loop rest res_filters (hostname_acc @ [field_filter])
         else hostname_filters_loop rest (res_filters @ [field_filter]) hostname_acc)"
| "hostname_filters_loop (SearchFilter (Some ors) a n p v f # rest) res_filters hostname_acc =
     (case hostname_filters_loop ors [] [] of (or_filters, deep_hostname_filters) \<Rightarrow>
        hostname_filters_loop rest
          (if or_filters \<noteq> []
           then res_filters @ [SearchFilter (Some or_filters) None None None None None]
           else res_filters)
          (hostname_acc @ deep_hostname_filters))"
| "hostname_filters_loop (SearchFilter None (Some ands) n p v f # rest) res_filters hostname_acc =
     (case hostname_filters_loop ands [] [] of (and_filters, deep_hostname_filters) \<Rightarrow>
        hostname_filters_loop rest
          (if and_filters \<noteq> []
           then res_filters @ [SearchFilter None (Some and_filters) None None None None]
           else res_filters)
          (hostname_acc @ deep_hostname_filters))"

definition hostname_filters ::
  "search_filter list \<Rightarrow> search_filter list \<times> search_filter list" where
  "hostname_filters filters = hostname_filters_loop filters [] []"

subsection \<open>The specification's reading of a filter tree\<close>

text \<open>
  The specification describes a tree of leaf predicates \<^verbatim>\<open>{name, op, val, field?}\<close> and
  \<^verbatim>\<open>and\<close>/\<^verbatim>\<open>or\<close> groups. A dict with neither \<^verbatim>\<open>'or'\<close> nor \<^verbatim>\<open>'and'\<close> is a leaf, a dict
  with one of the two keys is a group of that kind. \<open>one_kind\<close> holds of the lists of dicts
  in which no dict, at any depth, has both keys.
\<close>

fun one_kind :: "search_filter list \<Rightarrow> bool" where
  "one_kind [] = True"
| "one_kind (SearchFilter None None n p v f # rest) = one_kind rest"
| "one_kind (SearchFilter (Some ors) None n p v f # rest) = (one_kind ors \<and> one_kind rest)"
| "one_kind (SearchFilter None (Some ands) n p v f # rest) = (one_kind ands \<and> one_kind rest)"
| "one_kind (SearchFilter (Some ors) (Some ands) n p v f # rest) = False"

text \<open>The leaves of a tree, left to right.\<close>

fun leaves :: "search_filter list \<Rightarrow> search_filter list" where
  "leaves [] = []"
| "leaves (SearchFilter None None n p v f # rest) = SearchFilter None None n p v f # leaves rest"
| "leaves (SearchFilter (Some ors) None n p v f # rest) = leaves ors @ leaves rest"
| "leaves (SearchFilter None (Some ands) n p v f # rest) = leaves ands @ leaves rest"
| "leaves (SearchFilter (Some ors) (Some ands) n p v f # rest) =
     leaves ors @ leaves ands @ leaves rest"

definition named_hostnames :: "search_filter \<Rightarrow> bool" where
  "named_hostnames sf = (key_name sf = Some (PStr ''hostnames''))"

text \<open>
  The form in which a leaf comes out of \<^verbatim>\<open>_hostname_filters\<close>: a dict with the keys
  \<^verbatim>\<open>name\<close>, \<^verbatim>\<open>op\<close> and \<^verbatim>\<open>val\<close> (each \<^verbatim>\<open>None\<close> when the leaf did not have it) and
  with the key \<^verbatim>\<open>field\<close> only when the leaf had a truthy one.
\<close>

definition rebuilt :: "search_filter \<Rightarrow> search_filter" where
  "rebuilt sf =
     SearchFilter None None (Some (dict_get (key_name sf))) (Some (dict_get (key_op sf)))
       (Some (dict_get (key_val sf)))
       (if truthy (dict_get (key_field sf)) then Some (dict_get (key_field sf)) else None)"

text \<open>
  The tree with the \<^verbatim>\<open>hostnames\<close> leaves removed: every other leaf in its rebuilt form,
  every group keeping its kind and its place, and a group that is left without children
  omitted. A dict with both keys is not a node of the specification's tree and is left
  as it is.
\<close>

fun without_hostnames :: "search_filter list \<Rightarrow> search_filter list" where
  "without_hostnames [] = []"
| "without_hostnames (SearchFilter None None n p v f # rest) =
     (if n = Some (PStr ''hostnames'') then without_hostnames rest
      else rebuilt (SearchFilter None None n p v f) # without_hostnames rest)"
| "without_hostnames (SearchFilter (Some ors) None n p v f # rest) =
     (if without_hostnames ors = [] then without_hostnames rest
      else SearchFilter (Some (without_hostnames ors)) None None None None None
             # without_hostnames rest)"
| "without_hostnames (SearchFilter None (Some ands) n p v f # rest) =
     (if without_hostnames ands = [] then without_hostnames rest
      else SearchFilter None (Some (without_hostnames ands)) None None None None
             # without_hostnames rest)"
| "without_hostnames (SearchFilter (Some ors) (Some ands) n p v f # rest) =
     SearchFilter (Some ors) (Some ands) n p v f # without_hostnames rest"

text \<open>
  \<open>wf_tree\<close> holds of the trees that \<^verbatim>\<open>_hostname_filters\<close> can give back unchanged:
  a leaf has \<^verbatim>\<open>name\<close>, \<^verbatim>\<open>op\<close> and \<^verbatim>\<open>val\<close> and, when it has a \<^verbatim>\<open>field\<close>, a truthy
  one; a group has exactly one of the keys \<^verbatim>\<open>or\<close> and \<^verbatim>\<open>and\<close> and nothing else.
\<close>

fun wf_tree :: "search_filter list \<Rightarrow> bool" where
  "wf_tree [] = True"
| "wf_tree (SearchFilter None None n p v f # rest) =
     (n \<noteq> None \<and> p \<noteq> None \<and> v \<noteq> None
      \<and> (case f of None \<Rightarrow> True | Some x \<Rightarrow> truthy x) \<and> wf_tree rest)"
| "wf_tree (SearchFilter (Some ors) a n p v f # rest) =
     (a = None \<and> n = None \<and> p = None \<and> v = None \<and> f = None \<and> wf_tree ors \<and> wf_tree rest)"
| "wf_tree (SearchFilter None (Some ands) n p v f # rest) =
     (n = None \<and> p = None \<and> v = None \<and> f = None \<and> wf_tree ands \<and> wf_tree rest)"

text \<open>No group of the tree, at any depth, has an empty list of children.\<close>

fun no_empty_group :: "search_filter list \<Rightarrow> bool" where
  "no_empty_group [] = True"
| "no_empty_group (SearchFilter None None n p v f # rest) = no_empty_group rest"
| "no_empty_group (SearchFilter (Some ors) None n p v f # rest) =
     (ors \<noteq> [] \<and> no_empty_group ors \<and> no_empty_group rest)"
| "no_empty_group (SearchFilter None (Some ands) n p v f # rest) =
     (ands \<noteq> [] \<and> no_empty_group ands \<and> no_empty_group rest)"
| "no_empty_group (SearchFilter (Some ors) (Some ands) n p v f # rest) =
     (ors \<noteq> [] \<and> ands \<noteq> [] \<and> no_empty_group ors \<and> no_empty_group ands
      \<and> no_empty_group rest)"

text \<open>The leaves and the tree of the specification's example.\<close>

definition leaf :: "string \<Rightarrow> string \<Rightarrow> string \<Rightarrow> search_filter" where
  "leaf n p v = SearchFilter None None (Some (PStr n)) (Some (PStr p)) (Some (PStr v)) None"

definition or_group :: "search_filter list \<Rightarrow> search_filter" where
  "or_group xs = SearchFilter (Some xs) None None None None None"

definition and_group :: "search_filter list \<Rightarrow> search_filter" where
  "and_group xs = SearchFilter None (Some xs) None None None None"

text \<open>A \<^verbatim>\<open>hostnames\<close> leaf with the empty string as its \<^verbatim>\<open>field\<close>.\<close>

definition empty_field_leaf :: search_filter where
  "empty_field_leaf =
     SearchFilter None None (Some (PStr ''hostnames'')) (Some (PStr ''=='')) (Some (PStr ''a.com''))
       (Some (PStr []))"

definition example_tree :: "search_filter list" where
  "example_tree =
     [or_group [leaf ''hostnames'' ''=='' ''a.com'',
                and_group [leaf ''severity'' ''=='' ''high'']]]"

section \<open>The filter payload\<close>

text \<open>
  The dict that \<^verbatim>\<open>FlaskRestlessSchema().load\<close> returns: the keys \<^verbatim>\<open>'filters'\<close>,
  \<^verbatim>\<open>'group_by'\<close>, \<^verbatim>\<open>'offset'\<close> and \<^verbatim>\<open>'limit'\<close> that the view reads, each absent or
  present, and the items of every other key (\<^verbatim>\<open>'order_by'\<close> and the like), which the view
  hands on untouched.
\<close>

record filters_dict =
  f_filters :: "search_filter list option"
  f_group_by :: "pyval option"
  f_offset :: "pyval option"
  f_limit :: "pyval option"
  f_other :: "(string \<times> pyval) list"

definition empty_filters :: filters_dict where
  "empty_filters =
     \<lparr>f_filters = None, f_group_by = None, f_offset = None, f_limit = None, f_other = []\<rparr>"

text \<open>\<^verbatim>\<open>filters.get('filters', [])\<close>.\<close>

definition get_filters :: "filters_dict \<Rightarrow> search_filter list" where
  "get_filters filters = (case f_filters filters of None \<Rightarrow> [] | Some fs \<Rightarrow> fs)"

text \<open>\<^verbatim>\<open>host_os_filter.get('name') == 'host__os'\<close>.\<close>

definition named_host_os :: "search_filter \<Rightarrow> bool" where
  "named_host_os host_os_filter = (dict_get (key_name host_os_filter) = PStr ''host__os'')"

section \<open>Queries\<close>

text \<open>
  The view builds SQLAlchemy \<^verbatim>\<open>Query\<close> objects and never looks inside them. A query is
  modelled by the calls that built it: the call of the generic translator
  \<^verbatim>\<open>search(db.session, vulnerability_class, filters)\<close> with its two arguments or the
  query of a model class (\<^verbatim>\<open>self.model_class.query\<close>), and the generative methods \<^verbatim>\<open>filter\<close>, \<^verbatim>\<open>join\<close>, \<^verbatim>\<open>union\<close> and \<^verbatim>\<open>options\<close> applied to it.
\<close>

datatype vclass = VulnerabilityGeneric | Vulnerability | VulnerabilityWeb

datatype table = Host | Hostname | Service

record workspace =
  w_id :: nat
  w_name :: string

text \<open>
  The filter criteria of the source: \<^verbatim>\<open>VulnerabilityGeneric.workspace == workspace\<close>,
  \<^verbatim>\<open>Hostname.name == val\<close>, \<^verbatim>\<open>Host.os == os_value\<close>, \<^verbatim>\<open>or_(*or_filters)\<close>,
  \<^verbatim>\<open>model_class.id.in_(ids)\<close>, \<^verbatim>\<open>model_class.severity.in_(ids)\<close> and
  \<^verbatim>\<open>model_class.workspace_id == workspace.id\<close>.
\<close>

datatype criterion =
    WorkspaceEq workspace
  | HostnameNameEq pyval
  | HostOsEq pyval
  | Or_of "criterion list"
  | IdIn pyval
  | SeverityIn pyval
  | WorkspaceIdEq nat

text \<open>\<^verbatim>\<open>joinedload(VulnerabilityGeneric.tags)\<close> and its siblings, by the attribute loaded.\<close>

datatype loader = JoinedLoad string

datatype query =
    Search vclass filters_dict
  | ModelQuery vclass
  | Filter query criterion
  | Join query table
  | Union query query
  | Options query "loader list"

text \<open>
  \<^verbatim>\<open>Query.limit\<close> and \<^verbatim>\<open>Query.offset\<close> set the LIMIT and the OFFSET of the query they are
  called on; a query on which they were never called has neither.
\<close>

record paginated =
  pq_query :: query
  pq_limit :: "pyval option"
  pq_offset :: "pyval option"

definition unpaginated :: "query \<Rightarrow> paginated" where
  "unpaginated q = \<lparr>pq_query = q, pq_limit = None, pq_offset = None\<rparr>"

definition limit :: "paginated \<Rightarrow> pyval \<Rightarrow> paginated" where
  "limit q n = q\<lparr>pq_limit := Some n\<rparr>"

definition offset :: "paginated \<Rightarrow> pyval \<Rightarrow> paginated" where
  "offset q n = q\<lparr>pq_offset := Some n\<rparr>"

record marshmallow_params =
  mp_many :: bool
  mp_context :: "(string \<times> pyval) list"
  mp_exclude :: "string list"

subsection \<open>\<^verbatim>\<open>VulnerabilityView._generate_filter_query\<close>\<close>

text \<open>
  The loop \<^verbatim>\<open>or_filters.append(Hostname.name == hostname_filter['val'])\<close>; a predicate
  without the key \<^verbatim>\<open>'val'\<close> raises \<^verbatim>\<open>KeyError\<close>.
\<close>

fun hostname_or_filters :: "search_filter list \<Rightarrow> error + criterion list" where
  "hostname_or_filters [] = Inr []"
| "hostname_or_filters (hostname_filter # rest) =
     (case key_val hostname_filter of
        None \<Rightarrow> Inl (KeyError ''val'')
      | Some val \<Rightarrow>
          (case hostname_or_filters rest of
             Inl e \<Rightarrow> Inl e
           | Inr or_filters \<Rightarrow> Inr (HostnameNameEq val # or_filters)))"

definition eager_loaders :: "loader list" where
  "eager_loaders =
     [JoinedLoad ''VulnerabilityGeneric.tags'', JoinedLoad ''Vulnerability.host'',
      JoinedLoad ''Vulnerability.service'', JoinedLoad ''VulnerabilityWeb.service'']"

text \<open>
  The generic translator \<^verbatim>\<open>search\<close> (\<^verbatim>\<open>faraday.server.utils.search\<close>) is a parameter:
  \<open>search_raises\<close> tells whether the call raises; when it does not, the query it returns is
  \<open>Search vulnerability_class filters\<close>. The function assigns to \<^verbatim>\<open>filters['filters']\<close>,
  a dict that its caller goes on using, so the model returns the dict with the query.
  The steps are those of the source, in its order.
\<close>

definition generate_filter_query ::
  "(vclass \<Rightarrow> filters_dict \<Rightarrow> error option) \<Rightarrow> vclass \<Rightarrow> filters_dict \<Rightarrow> search_filter list
     \<Rightarrow> workspace \<Rightarrow> marshmallow_params \<Rightarrow> error + (query \<times> filters_dict)" where
  "generate_filter_query search_raises vulnerability_class filters hostname_fs workspace
       marshmallow_params =
     (let hosts_os_filter = filter named_host_os (get_filters filters);
          filters = (if hosts_os_filter \<noteq> []
                     then filters\<lparr>f_filters :=
                            Some (filter (\<lambda>f. \<not> named_host_os f) (get_filters filters))\<rparr>
                     else filters)
      in case search_raises vulnerability_class filters of
           Some e \<Rightarrow> Inl e
         | None \<Rightarrow>
            (let vulns = Filter (Search vulnerability_class filters) (WorkspaceEq workspace)
             in case (if hostname_fs \<noteq> []
                      then (case hostname_or_filters hostname_fs of
                              Inl e \<Rightarrow> Inl e
                            | Inr or_filters \<Rightarrow>
                                (let vulns_host =
                                       Filter (Join (Join vulns Host) Hostname) (Or_of or_filters)
                                 in Inr (Union vulns_host
                                      (Filter (Join (Join (Join vulns Service) Host) Hostname)
                                         (Or_of or_filters)))))
                      else Inr vulns) of
                  Inl e \<Rightarrow> Inl e
                | Inr vulns \<Rightarrow>
                   (case (if hosts_os_filter \<noteq> []
                          then (case key_val (hd hosts_os_filter) of
                                  None \<Rightarrow> Inl (KeyError ''val'')
                                | Some os_value \<Rightarrow>
                                    Inr (Filter (Join (Join vulns Host) Service)
                                           (HostOsEq os_value)))
                          else Inr vulns) of
                      Inl e \<Rightarrow> Inl e
                    | Inr vulns \<Rightarrow>
                        Inr (if f_group_by filters = None
                             then Options vulns eager_loaders
                             else vulns,
                             filters))))"

subsection \<open>\<^verbatim>\<open>VulnerabilityView._filter\<close>\<close>

text \<open>
  The collaborators of \<^verbatim>\<open>_filter\<close> that are not part of the view are parameters:
  \<^verbatim>\<open>json.loads\<close>, \<^verbatim>\<open>FlaskRestlessSchema().load\<close>, \<^verbatim>\<open>self._get_workspace\<close>, the
  translator, the marshmallow \<^verbatim>\<open>dump\<close> of a query, \<^verbatim>\<open>Query.count\<close> and
  \<^verbatim>\<open>get_filtered_data\<close>.
\<close>

record 'o collaborators =
  c_json_loads :: "string \<Rightarrow> error + pyval"
  c_schema_load :: "pyval \<Rightarrow> error + filters_dict"
  c_get_workspace :: "string \<Rightarrow> error + workspace"
  c_search_raises :: "vclass \<Rightarrow> filters_dict \<Rightarrow> error option"
  c_dump :: "marshmallow_params \<Rightarrow> paginated \<Rightarrow> 'o"
  c_count_rows :: "query \<Rightarrow> nat"
  c_get_filtered_data :: "filters_dict \<Rightarrow> query \<Rightarrow> error + ('o \<times> nat)"

text \<open>
  The statements the view sends to the database while it handles one request, in the order
  it sends them: the query for the custom fields (sent by \<^verbatim>\<open>export_csv\<close>), the
  workspace lookup, the rows fetched by \<^verbatim>\<open>dump\<close>, the \<^verbatim>\<open>count()\<close>, and the grouped
  aggregation.
\<close>

datatype db_call =
    CustomFieldsQuery
  | WorkspaceLookup string
  | FetchRows paginated
  | CountRows query
  | GroupedData filters_dict query

text \<open>
  The \<^verbatim>\<open>try\<close> block at the head of \<^verbatim>\<open>_filter\<close>: the filters and the hostname
  predicates, or the exception raised. \<^verbatim>\<open>load(...) or {}\<close> yields the loaded dict, and the
  hostname predicates are split out when the dict is not empty.
\<close>

definition load_filters ::
  "'o collaborators \<Rightarrow> string \<Rightarrow> error + (filters_dict \<times> search_filter list)" where
  "load_filters env filters =
     (case c_json_loads env filters of
        Inl e \<Rightarrow> Inl e
      | Inr json \<Rightarrow>
         (case c_schema_load env json of
            Inl e \<Rightarrow> Inl e
          | Inr loaded \<Rightarrow>
             (let filters = (if loaded \<noteq> empty_filters then loaded else empty_filters)
              in if filters \<noteq> empty_filters
                 then (case hostname_filters (get_filters filters) of
                         (res_filters, hostname_fs) \<Rightarrow>
                            Inr (filters\<lparr>f_filters := Some res_filters\<rparr>, hostname_fs))
                 else Inr (filters, []))))"

definition filter_params :: marshmallow_params where
  "filter_params = \<lparr>mp_many = True, mp_context = [], mp_exclude = [''_attachments'']\<rparr>"

definition filter_vulns ::
  "'o collaborators \<Rightarrow> string \<Rightarrow> string \<Rightarrow> (error + ('o \<times> nat)) \<times> db_call list" where
  "filter_vulns env filters workspace_name =
     (case load_filters env filters of
        Inl JSONDecodeError \<Rightarrow> (Inl (Abort 400 ''Invalid filters''), [])
      | Inl ValidationError \<Rightarrow> (Inl (Abort 400 ''Invalid filters''), [])
      | Inl e \<Rightarrow> (Inl e, [])
      | Inr (filters, hostname_fs) \<Rightarrow>
         (case c_get_workspace env workspace_name of
            Inl e \<Rightarrow> (Inl e, [WorkspaceLookup workspace_name])
          | Inr workspace \<Rightarrow>
             (let marshmallow_params = filter_params
              in if f_group_by filters = None
                 then
                   (let offset_value = f_offset filters;
                        limit_value = f_limit filters;
                        filters = filters\<lparr>f_offset := None, f_limit := None\<rparr>
                    in case generate_filter_query (c_search_raises env) VulnerabilityGeneric
                              filters hostname_fs workspace marshmallow_params of
                         Inl (AttributeError e) \<Rightarrow>
                           (Inl (Abort 400 e), [WorkspaceLookup workspace_name])
                       | Inl e \<Rightarrow> (Inl e, [WorkspaceLookup workspace_name])
                       | Inr (vulns, filters) \<Rightarrow>
                          (let total_vulns = vulns;
                               vulns = unpaginated vulns;
                               vulns = (case limit_value of
                                          None \<Rightarrow> vulns
                                        | Some l \<Rightarrow> if truthy l then limit vulns l else vulns);
                               vulns = (case offset_value of
                                          None \<Rightarrow> vulns
                                        | Some off \<Rightarrow> if truthy off then offset vulns off else vulns)
                           in (Inr (c_dump env marshmallow_params vulns, c_count_rows env total_vulns),
                               [WorkspaceLookup workspace_name, FetchRows vulns,
                                CountRows total_vulns])))
                 else
                   (case generate_filter_query (c_search_raises env) VulnerabilityGeneric
                           filters hostname_fs workspace marshmallow_params of
                      Inl e \<Rightarrow> (Inl e, [WorkspaceLookup workspace_name])
                    | Inr (vulns, filters) \<Rightarrow>
                       (case c_get_filtered_data env filters vulns of
                          Inl e \<Rightarrow>
                            (Inl e, [WorkspaceLookup workspace_name, GroupedData filters vulns])
                        | Inr (vulns_data, rows_count) \<Rightarrow>
                            (Inr (vulns_data, rows_count),
                             [WorkspaceLookup workspace_name, GroupedData filters vulns]))))))"

section \<open>Rows of a query\<close>

text \<open>
  Modelled from the spec: the tables (\<^verbatim>\<open>faraday.server.models\<close>) and the ORM that runs the
  queries are not part of the view. A vulnerability row carries the columns the claims speak
  of: its id, the id of its workspace, its severity.
\<close>

record vulnerability =
  v_id :: nat
  v_workspace_id :: nat
  v_severity :: string

text \<open>
  Modelled from the spec: what the database answers. \<open>table_rows\<close> are the rows of a
  model class; \<open>searched_rows\<close> are the
  vulnerabilities that the query returned by \<^verbatim>\<open>search\<close> selects; \<open>join_rows\<close> gives, for a
  row and the rows already joined to it (\<open>'c\<close>), the joined rows of the next table, one
  result row for each; \<open>hostname_name\<close> and \<open>host_os\<close> read the columns
  \<^verbatim>\<open>Hostname.name\<close> and \<^verbatim>\<open>Host.os\<close> of the joined rows; \<open>no_join\<close> is a row with
  nothing joined to it.
\<close>

record 'c orm =
  table_rows :: "vclass \<Rightarrow> vulnerability list"
  searched_rows :: "vclass \<Rightarrow> filters_dict \<Rightarrow> vulnerability list"
  join_rows :: "table \<Rightarrow> vulnerability \<Rightarrow> 'c \<Rightarrow> 'c list"
  hostname_name :: "'c \<Rightarrow> pyval"
  host_os :: "'c \<Rightarrow> pyval"
  no_join :: 'c

text \<open>
  Modelled from the spec: a criterion on a row. The workspace criteria compare the
  workspace of the vulnerability; \<^verbatim>\<open>or_\<close> of no criterion restricts nothing;
  \<^verbatim>\<open>in_\<close> is membership in a list of values (the view never builds the criterion
  from a value that is not a list).
\<close>

fun crit_holds :: "'c orm \<Rightarrow> criterion \<Rightarrow> vulnerability \<times> 'c \<Rightarrow> bool" where
  "crit_holds orm (WorkspaceEq w) r = (v_workspace_id (fst r) = w_id w)"
| "crit_holds orm (HostnameNameEq x) r = (hostname_name orm (snd r) = x)"
| "crit_holds orm (HostOsEq x) r = (host_os orm (snd r) = x)"
| "crit_holds orm (Or_of cs) r = (cs = [] \<or> list_ex (\<lambda>c. crit_holds orm c r) cs)"
| "crit_holds orm (IdIn ids) r =
     (case ids of PList xs \<Rightarrow> PInt (int (v_id (fst r))) \<in> set xs | _ \<Rightarrow> False)"
| "crit_holds orm (SeverityIn ids) r =
     (case ids of PList xs \<Rightarrow> PStr (v_severity (fst r)) \<in> set xs | _ \<Rightarrow> False)"
| "crit_holds orm (WorkspaceIdEq n) r = (v_workspace_id (fst r) = n)"

text \<open>
  Modelled from the spec: the rows of a query. \<^verbatim>\<open>filter\<close> keeps the rows on which the
  criterion holds, \<^verbatim>\<open>join\<close> pairs every row with each of its joined rows, \<^verbatim>\<open>union\<close> is
  SQL's \<^verbatim>\<open>UNION\<close> of the vulnerabilities of both queries (distinct rows), \<^verbatim>\<open>options\<close>
  changes how related collections are loaded and not which rows are selected.
\<close>

fun rows :: "'c orm \<Rightarrow> query \<Rightarrow> (vulnerability \<times> 'c) list" where
  "rows orm (Search cls fs) = map (\<lambda>v. (v, no_join orm)) (searched_rows orm cls fs)"
| "rows orm (ModelQuery cls) = map (\<lambda>v. (v, no_join orm)) (table_rows orm cls)"
| "rows orm (Filter q c) = filter (crit_holds orm c) (rows orm q)"
| "rows orm (Join q t) =
     concat (map (\<lambda>r. map (\<lambda>c. (fst r, c)) (join_rows orm t (fst r) (snd r))) (rows orm q))"
| "rows orm (Union q1 q2) =
     map (\<lambda>v. (v, no_join orm)) (remdups (map fst (rows orm q1) @ map fst (rows orm q2)))"
| "rows orm (Options q ls) = rows orm q"

definition entities :: "'c orm \<Rightarrow> query \<Rightarrow> vulnerability list" where
  "entities orm q = map fst (rows orm q)"

text \<open>The calls of the translator a query is built on.\<close>

fun searches :: "query \<Rightarrow> (vclass \<times> filters_dict) list" where
  "searches (Search cls fs) = [(cls, fs)]"
| "searches (ModelQuery cls) = []"
| "searches (Filter q c) = searches q"
| "searches (Join q t) = searches q"
| "searches (Union q1 q2) = searches q1 @ searches q2"
| "searches (Options q ls) = searches q"

text \<open>The query without the loader options put on it last.\<close>

fun without_options :: "query \<Rightarrow> query" where
  "without_options (Options q ls) = q"
| "without_options q = q"

text \<open>Every path from the translator's query to the result goes through the workspace criterion.\<close>

fun scoped :: "workspace \<Rightarrow> query \<Rightarrow> bool" where
  "scoped w (Search cls fs) = False"
| "scoped w (ModelQuery cls) = False"
| "scoped w (Filter q c) = (c = WorkspaceEq w \<or> scoped w q)"
| "scoped w (Join q t) = scoped w q"
| "scoped w (Union q1 q2) = (scoped w q1 \<and> scoped w q2)"
| "scoped w (Options q ls) = scoped w q"

text \<open>
  A database for the examples: three vulnerabilities, the first and the third in the
  workspace 1, the second in the workspace 2.
\<close>

definition vuln1 :: vulnerability where
  "vuln1 = \<lparr>v_id = 10, v_workspace_id = 1, v_severity = ''high''\<rparr>"

definition vuln2 :: vulnerability where
  "vuln2 = \<lparr>v_id = 20, v_workspace_id = 2, v_severity = ''low''\<rparr>"

definition vuln3 :: vulnerability where
  "vuln3 = \<lparr>v_id = 30, v_workspace_id = 1, v_severity = ''medium''\<rparr>"

definition ws1 :: workspace where
  "ws1 = \<lparr>w_id = 1, w_name = ''ws1''\<rparr>"

text \<open>
  Every host is named \<^verbatim>\<open>a.com\<close> and runs the operating system \<open>os\<close>; a host has
  \<open>n\<close> services; every other join finds one row.
\<close>

definition example_orm :: "string \<Rightarrow> nat \<Rightarrow> unit orm" where
  "example_orm os n =
     \<lparr>table_rows = (\<lambda>cls. [vuln1, vuln2, vuln3]),
      searched_rows = (\<lambda>cls fs. [vuln1, vuln2, vuln3]),
      join_rows = (\<lambda>t v c. if t = Service then replicate n () else [()]),
      hostname_name = (\<lambda>c. PStr ''a.com''),
      host_os = (\<lambda>c. PStr os),
      no_join = ()\<rparr>"

definition never_raises :: "vclass \<Rightarrow> filters_dict \<Rightarrow> error option" where
  "never_raises cls fs = None"

definition filters_of :: "search_filter list \<Rightarrow> filters_dict" where
  "filters_of fs = empty_filters\<lparr>f_filters := Some fs\<rparr>"

text \<open>
  The specification's names for the queries of the hostname step: the translator's query
  scoped to the workspace, the vulnerabilities reached directly via Host and Hostname, those
  reached via Service, Host and Hostname, and the union of the two.
\<close>

definition scoped_search :: "vclass \<Rightarrow> filters_dict \<Rightarrow> workspace \<Rightarrow> query" where
  "scoped_search cls fs w = Filter (Search cls fs) (WorkspaceEq w)"

definition via_host :: "query \<Rightarrow> criterion list \<Rightarrow> query" where
  "via_host q ors = Filter (Join (Join q Host) Hostname) (Or_of ors)"

definition via_service :: "query \<Rightarrow> criterion list \<Rightarrow> query" where
  "via_service q ors = Filter (Join (Join (Join q Service) Host) Hostname) (Or_of ors)"

definition hostname_union :: "query \<Rightarrow> criterion list \<Rightarrow> query" where
  "hostname_union q ors = Union (via_host q ors) (via_service q ors)"

text \<open>
  The OR-combination of the hostname step, one \<^verbatim>\<open>Hostname.name == val\<close> for each
  extracted predicate; the top-level \<^verbatim>\<open>host__os\<close> predicates of a filter dict; and the
  dict without them, which is the dict as it was when it has none.
\<close>

definition hostname_criteria :: "search_filter list \<Rightarrow> criterion list" where
  "hostname_criteria hs = map (\<lambda>h. HostnameNameEq (the (key_val h))) hs"

definition top_host_os :: "filters_dict \<Rightarrow> search_filter list" where
  "top_host_os filters = filter named_host_os (get_filters filters)"

definition without_host_os :: "filters_dict \<Rightarrow> filters_dict" where
  "without_host_os filters =
     (if top_host_os filters = [] then filters
      else filters\<lparr>f_filters := Some (filter (\<lambda>f. \<not> named_host_os f) (get_filters filters))\<rparr>)"

text \<open>
  The LIMIT or OFFSET that \<^verbatim>\<open>_filter\<close> puts on the query for a popped value: the value
  when it is truthy, none when the key was absent or its value is falsy.
\<close>

definition applied :: "pyval option \<Rightarrow> pyval option" where
  "applied v = (case v of None \<Rightarrow> None | Some x \<Rightarrow> if truthy x then Some x else None)"

text \<open>
  Modelled from the spec: the rows a paginated query fetches, OFFSET before LIMIT.
\<close>

definition fetch :: "'c orm \<Rightarrow> paginated \<Rightarrow> vulnerability list" where
  "fetch orm pq =
     (let rs = entities orm (pq_query pq);
          rs = (case pq_offset pq of Some (PInt n) \<Rightarrow> drop (nat n) rs | _ \<Rightarrow> rs)
      in case pq_limit pq of Some (PInt n) \<Rightarrow> take (nat n) rs | _ \<Rightarrow> rs)"

text \<open>
  Collaborators for the examples. The payload \<^verbatim>\<open>{\<close> is not JSON, the payload \<^verbatim>\<open>[]\<close>
  fails the schema, \<^verbatim>\<open>limit0\<close> and \<^verbatim>\<open>limit1\<close> stand for a payload with one severity
  predicate and \<^verbatim>\<open>"limit": 0\<close> or \<^verbatim>\<open>"limit": 1\<close>, and every other payload loads as the
  severity predicate alone. The database is \<open>example_orm\<close>.
\<close>

definition example_filters :: filters_dict where
  "example_filters = filters_of [leaf ''severity'' ''=='' ''high'']"

definition example_env :: "(vulnerability list) collaborators" where
  "example_env =
     \<lparr>c_json_loads = (\<lambda>s. if s = ''{'' then Inl JSONDecodeError else Inr (PStr s)),
      c_schema_load = (\<lambda>j. if j = PStr ''[]'' then Inl ValidationError
                           else if j = PStr ''limit0''
                           then Inr (example_filters\<lparr>f_limit := Some (PInt 0)\<rparr>)
                           else if j = PStr ''limit1''
                           then Inr (example_filters\<lparr>f_limit := Some (PInt 1)\<rparr>)
                           else Inr example_filters),
      c_get_workspace = (\<lambda>n. if n = ''ws1'' then Inr ws1 else Inl (Abort 404 ''No such workspace'')),
      c_search_raises = never_raises,
      c_dump = (\<lambda>mp pq. fetch (example_orm ''linux'' 1) pq),
      c_count_rows = (\<lambda>q. length (rows (example_orm ''linux'' 1) q)),
      c_get_filtered_data = (\<lambda>fs q. Inr ([], 0))\<rparr>"

section \<open>Grouped counts\<close>

text \<open>
  A group of the count endpoint is a dict; \<^verbatim>\<open>res\<close>, the result of the inherited
  \<^verbatim>\<open>count\<close>, holds the list of groups under \<^verbatim>\<open>'groups'\<close> beside its other items.
\<close>

type_synonym group = "string \<rightharpoonup> pyval"

record count_result =
  groups :: "group list"
  res_other :: "(string \<times> pyval) list"

text \<open>A list or a dict is not hashable and cannot be looked up in a dict.\<close>

fun hashable :: "pyval \<Rightarrow> bool" where
  "hashable (PList xs) = False"
| "hashable (PDict kvs) = False"
| "hashable v = True"

subsection \<open>\<^verbatim>\<open>VulnerabilityView.count\<close>\<close>

definition severity_map :: "pyval \<rightharpoonup> pyval" where
  "severity_map = [PStr ''informational'' \<mapsto> PStr ''info'', PStr ''medium'' \<mapsto> PStr ''med'']"

text \<open>
  The local function \<^verbatim>\<open>convert_group\<close>: \<^verbatim>\<open>group['severity']\<close> raises \<^verbatim>\<open>KeyError\<close>
  when the key is absent, \<^verbatim>\<open>severity_map.get(severity, severity)\<close> raises
  \<^verbatim>\<open>TypeError\<close> on an unhashable key, and the label is assigned to both keys of the copy.
\<close>

definition convert_group :: "group \<Rightarrow> error + group" where
  "convert_group grp =
     (case grp ''severity'' of
        None \<Rightarrow> Inl (KeyError ''severity'')
      | Some severity \<Rightarrow>
          if \<not> hashable severity then Inl TypeError
          else (let label = (case severity_map severity of None \<Rightarrow> severity | Some x \<Rightarrow> x)
                in Inr (grp(''severity'' \<mapsto> label, ''name'' \<mapsto> label))))"

text \<open>The comprehension \<^verbatim>\<open>[convert_group(group) for group in res['groups']]\<close>.\<close>

fun convert_groups :: "group list \<Rightarrow> error + group list" where
  "convert_groups [] = Inr []"
| "convert_groups (grp # rest) =
     (case convert_group grp of
        Inl e \<Rightarrow> Inl e
      | Inr g \<Rightarrow> (case convert_groups rest of Inl e \<Rightarrow> Inl e | Inr gs \<Rightarrow> Inr (g # gs)))"

text \<open>
  \<^verbatim>\<open>count\<close>, given the request argument \<^verbatim>\<open>group_by\<close> and what \<^verbatim>\<open>super().count\<close>
  returned or raised.
\<close>

definition count :: "string option \<Rightarrow> error + count_result \<Rightarrow> error + count_result" where
  "count group_by super_count =
     (case super_count of
        Inl e \<Rightarrow> Inl e
      | Inr res \<Rightarrow>
          if group_by = Some ''severity''
          then (case convert_groups (groups res) of
                  Inl e \<Rightarrow> Inl e
                | Inr gs \<Rightarrow> Inr (res\<lparr>groups := gs\<rparr>))
          else Inr res)"

text \<open>The rewrite of a severity label in the specification's words.\<close>

definition rewrite_label :: "pyval \<Rightarrow> pyval" where
  "rewrite_label s =
     (if s = PStr ''informational'' then PStr ''info''
      else if s = PStr ''medium'' then PStr ''med'' else s)"

definition example_group :: "string \<Rightarrow> group" where
  "example_group s = [''severity'' \<mapsto> PStr s, ''name'' \<mapsto> PStr s, ''count'' \<mapsto> PInt 3]"

section \<open>Bulk delete\<close>

text \<open>\<^verbatim>\<open>k in x\<close> for a string \<open>k\<close>: a key of a dict, an element of a list, a substring of a string.\<close>

fun starts_with :: "string \<Rightarrow> string \<Rightarrow> bool" where
  "starts_with [] s = True"
| "starts_with (c # k) [] = False"
| "starts_with (c # k) (d # s) = (c = d \<and> starts_with k s)"

fun is_substring :: "string \<Rightarrow> string \<Rightarrow> bool" where
  "is_substring k [] = (k = [])"
| "is_substring k (c # s) = (starts_with k (c # s) \<or> is_substring k s)"

fun contains :: "pyval \<Rightarrow> string \<Rightarrow> error + bool" where
  "contains (PDict kvs) k = Inr (map_of kvs k \<noteq> None)"
| "contains (PList xs) k = Inr (PStr k \<in> set xs)"
| "contains (PStr s) k = Inr (is_substring k s)"
| "contains v k = Inl TypeError"

text \<open>\<^verbatim>\<open>x[k]\<close> for a string \<open>k\<close>: the value of a dict, \<^verbatim>\<open>TypeError\<close> for everything else.\<close>

fun getitem :: "pyval \<Rightarrow> string \<Rightarrow> error + pyval" where
  "getitem (PDict kvs) k = (case map_of kvs k of None \<Rightarrow> Inl (KeyError k) | Some v \<Rightarrow> Inr v)"
| "getitem v k = Inl TypeError"

subsection \<open>\<^verbatim>\<open>VulnerabilityView.bulk_delete\<close>\<close>

text \<open>
  The method ends in one of two calls, neither of which is defined in the view: the
  inherited \<^verbatim>\<open>BulkDeleteWorkspacedMixin.bulk_delete(self, workspace_name)\<close> or
  \<^verbatim>\<open>self._perform_bulk_delete(values, by='severity', workspace_name=workspace_name)\<close>.
\<close>

datatype bulk_call =
    MixinBulkDelete string
  | PerformBulkDelete pyval string string

definition bulk_delete :: "pyval option \<Rightarrow> string \<Rightarrow> error + bulk_call" where
  "bulk_delete request_json workspace_name =
     (case request_json of
        None \<Rightarrow> Inr (MixinBulkDelete workspace_name)
      | Some json \<Rightarrow>
          if \<not> truthy json then Inr (MixinBulkDelete workspace_name)
          else (case contains json ''severities'' of
                  Inl e \<Rightarrow> Inl e
                | Inr False \<Rightarrow> Inr (MixinBulkDelete workspace_name)
                | Inr True \<Rightarrow>
                    (case getitem json ''severities'' of
                       Inl e \<Rightarrow> Inl e
                     | Inr severities \<Rightarrow>
                         Inr (PerformBulkDelete severities ''severity'' workspace_name))))"

subsection \<open>\<^verbatim>\<open>VulnerabilityView._bulk_delete_query\<close>\<close>

text \<open>
  \<open>by\<close> is \<^verbatim>\<open>kwargs.get("by", "id")\<close>: the keyword argument, when it was given.
  \<^verbatim>\<open>in_(ids)\<close> is called before the workspace is looked up and raises \<^verbatim>\<open>TypeError\<close>
  when \<open>ids\<close> is not a list.
\<close>

definition bulk_delete_query ::
  "(string \<Rightarrow> error + workspace) \<Rightarrow> vclass \<Rightarrow> pyval \<Rightarrow> string option \<Rightarrow> string
     \<Rightarrow> error + query" where
  "bulk_delete_query get_workspace model_class ids by workspace_name =
     (case (case ids of
              PList xs \<Rightarrow>
                Inr (if (case by of None \<Rightarrow> ''id'' | Some b \<Rightarrow> b) \<noteq> ''severity''
                     then Filter (ModelQuery model_class) (IdIn ids)
                     else Filter (ModelQuery model_class) (SeverityIn ids))
            | _ \<Rightarrow> Inl TypeError) of
        Inl e \<Rightarrow> Inl e
      | Inr query \<Rightarrow>
          (case get_workspace workspace_name of
             Inl e \<Rightarrow> Inl e
           | Inr workspace \<Rightarrow> Inr (Filter query (WorkspaceIdEq (w_id workspace)))))"

text \<open>
  Modelled from the spec: \<^verbatim>\<open>_perform_bulk_delete\<close> is inherited from
  \<^verbatim>\<open>faraday.server.api.base\<close>, which is not under src/. The bulk delete removes from the
  table the rows that the query of \<^verbatim>\<open>_bulk_delete_query\<close> selects; the result is the
  table that remains.
\<close>

definition perform_bulk_delete ::
  "'c orm \<Rightarrow> (string \<Rightarrow> error + workspace) \<Rightarrow> vclass \<Rightarrow> pyval \<Rightarrow> string \<Rightarrow> string
     \<Rightarrow> error + vulnerability list" where
  "perform_bulk_delete orm get_workspace model_class vals by workspace_name =
     (case bulk_delete_query get_workspace model_class vals (Some by) workspace_name of
        Inl e \<Rightarrow> Inl e
      | Inr q \<Rightarrow>
          Inr (filter (\<lambda>v. v \<notin> set (entities orm q)) (table_rows orm model_class)))"

definition example_get_workspace :: "string \<Rightarrow> error + workspace" where
  "example_get_workspace n =
     (if n = ''ws1'' then Inr ws1 else Inl (Abort 404 ''No such workspace''))"

section \<open>Attachments\<close>








subsection \<open>\<^verbatim>\<open>VulnerabilityView._process_attachments\<close>\<close>


subsection \<open>\<^verbatim>\<open>VulnerabilityView.post_attachment\<close>\<close>



section \<open>CSV export\<close>

subsection \<open>\<^verbatim>\<open>VulnerabilityView.export_csv\<close>\<close>






section \<open>Properties of \<^verbatim>\<open>_hostname_filters\<close>\<close>

lemma dict_get_eq_PStr: "dict_get n = PStr s \<longleftrightarrow> n = Some (PStr s)"
  by (cases n) (simp_all add: dict_get_def)

lemma rebuilt_leaf:
  "rebuilt (SearchFilter None None n p v f) =
     SearchFilter None None (Some (dict_get n)) (Some (dict_get p)) (Some (dict_get v))
       (if truthy (dict_get f) then Some (dict_get f) else None)"
  by (simp add: rebuilt_def)

lemma named_hostnames_rebuilt: "named_hostnames (rebuilt sf) = named_hostnames sf"
  by (simp add: named_hostnames_def rebuilt_def dict_get_eq_PStr)

lemma hostname_filters_loop_eq:
  "one_kind T \<Longrightarrow>
     hostname_filters_loop T res hs =
       (res @ without_hostnames T, hs @ map rebuilt (filter named_hostnames (leaves T)))"
proof (induction T res hs rule: hostname_filters_loop.induct)
  case (1 res hs)
  show ?case by simp
next
  case (2 n p v f rest res hs)
  from "2.prems" have rest: "one_kind rest" by simp
  let ?leaf = "SearchFilter None None n p v f"
  have nh: "named_hostnames ?leaf = (dict_get n = PStr ''hostnames'')"
    by (simp add: named_hostnames_def dict_get_eq_PStr)
  show ?case
  proof (cases "dict_get n = PStr ''hostnames''")
    case True
    have "hostname_filters_loop rest res (hs @ [rebuilt ?leaf]) =
          (res @ without_hostnames rest,
           (hs @ [rebuilt ?leaf]) @ map rebuilt (filter named_hostnames (leaves rest)))"
      using "2.IH"(1) [OF refl refl refl refl refl _ rest] True by (simp add: rebuilt_leaf)
    with True nh show ?thesis
      by (simp add: Let_def rebuilt_leaf dict_get_eq_PStr)
  next
    case False
    have "hostname_filters_loop rest (res @ [rebuilt ?leaf]) hs =
          ((res @ [rebuilt ?leaf]) @ without_hostnames rest,
           hs @ map rebuilt (filter named_hostnames (leaves rest)))"
      using "2.IH"(2) [OF refl refl refl refl refl _ rest] False by (simp add: rebuilt_leaf)
    with False nh show ?thesis
      by (simp add: Let_def rebuilt_leaf dict_get_eq_PStr)
  qed
next
  case (3 ors a n p v f rest res hs)
  from "3.prems" have a: "a = None" and ors: "one_kind ors" and rest: "one_kind rest"
    by (cases a; simp)+
  have inner: "hostname_filters_loop ors [] [] =
      (without_hostnames ors, map rebuilt (filter named_hostnames (leaves ors)))"
    using "3.IH"(1) [OF ors] by simp
  show ?case
    using "3.IH"(2) [OF inner [symmetric] rest] inner a by simp
next
  case (4 ands n p v f rest res hs)
  from "4.prems" have ands: "one_kind ands" and rest: "one_kind rest"
    by simp_all
  have inner: "hostname_filters_loop ands [] [] =
      (without_hostnames ands, map rebuilt (filter named_hostnames (leaves ands)))"
    using "4.IH"(1) [OF ands] by simp
  show ?case
    using "4.IH"(2) [OF inner [symmetric] rest] inner by simp
qed

lemma leaves_without_hostnames:
  "one_kind T \<Longrightarrow>
     leaves (without_hostnames T) = map rebuilt (filter (\<lambda>l. \<not> named_hostnames l) (leaves T))"
  by (induction T rule: without_hostnames.induct)
    (auto simp: named_hostnames_def rebuilt_def)

lemma no_hostnames_left:
  "filter named_hostnames (map rebuilt (filter (\<lambda>l. \<not> named_hostnames l) xs)) = []"
  by (induction xs) (auto simp: named_hostnames_rebuilt)

lemma wf_tree_one_kind: "wf_tree T \<Longrightarrow> one_kind T"
  by (induction T rule: one_kind.induct) auto

lemma wf_tree_rebuilt: "wf_tree T \<Longrightarrow> map rebuilt (leaves T) = leaves T"
proof (induction T rule: leaves.induct)
  case (2 n p v f rest)
  then obtain n' p' v' where "n = Some n'" "p = Some p'" "v = Some v'"
    and "case f of None \<Rightarrow> True | Some x \<Rightarrow> truthy x" and "wf_tree rest"
    by auto
  with 2 show ?case
    by (cases f) (simp_all add: rebuilt_def dict_get_def)
qed auto

lemma map_filter_fixed: "map g xs = xs \<Longrightarrow> map g (filter P xs) = filter P xs"
  by (induction xs) auto

lemma without_hostnames_id:
  "wf_tree T \<Longrightarrow> filter named_hostnames (leaves T) = [] \<Longrightarrow> no_empty_group T
     \<Longrightarrow> without_hostnames T = T"
proof (induction T rule: without_hostnames.induct)
  case 1
  show ?case by simp
next
  case (2 n p v f rest)
  from "2.prems"(1) obtain n' p' v' where npv: "n = Some n'" "p = Some p'" "v = Some v'"
    and f: "case f of None \<Rightarrow> True | Some x \<Rightarrow> truthy x" and rest: "wf_tree rest"
    by auto
  have "rebuilt (SearchFilter None None n p v f) = SearchFilter None None n p v f"
    using npv f by (cases f) (simp_all add: rebuilt_def dict_get_def)
  with 2 rest show ?case
    by (auto simp: named_hostnames_def split: if_splits)
next
  case (3 ors n p v f rest)
  then show ?case by auto
next
  case (4 ands n p v f rest)
  then show ?case by auto
next
  case (5 ors ands n p v f rest)
  then show ?case by simp
qed

lemma example_tree_result:
  "hostname_filters example_tree =
     ([or_group [and_group [leaf ''severity'' ''=='' ''high'']]],
      [leaf ''hostnames'' ''=='' ''a.com''])"
  by (simp add: hostname_filters_def example_tree_def or_group_def and_group_def leaf_def
      dict_get_def)

text \<open>
  A dict with both keys is outside the specification's tree: the function follows
  \<^verbatim>\<open>'or'\<close> and never looks at the list under \<^verbatim>\<open>'and'\<close>, whose \<^verbatim>\<open>hostnames\<close> leaf
  is neither extracted nor kept.
\<close>

lemma hostname_filters_both_keys:
  "hostname_filters
     [SearchFilter (Some [leaf ''severity'' ''=='' ''high''])
        (Some [leaf ''hostnames'' ''=='' ''a.com'']) None None None None] =
   ([or_group [leaf ''severity'' ''=='' ''high'']], [])"
  by (simp add: hostname_filters_def or_group_def leaf_def dict_get_def)

text \<open>
  C1, as stated, fails at two trees. The tree \<^verbatim>\<open>[{"or": []}]\<close> has no \<^verbatim>\<open>hostnames\<close>
  leaf and is not returned as it is: the \<^verbatim>\<open>if or_filters:\<close> guard leaves the empty group
  out and the result is \<^verbatim>\<open>([], [])\<close>. The \<^verbatim>\<open>hostnames\<close> leaf with \<^verbatim>\<open>"field": ""\<close> does
  not appear in the extracted list as it is: the \<^verbatim>\<open>if otherfield:\<close> guard rebuilds it
  without the key \<^verbatim>\<open>field\<close>.
\<close>

theorem hostname_filters_noop_counterexample:
  "filter named_hostnames (leaves [or_group []]) = []
   \<and> hostname_filters [or_group []] = ([], [])
   \<and> hostname_filters [or_group []] \<noteq> ([or_group []], [])
   \<and> hostname_filters [empty_field_leaf] = ([], [leaf ''hostnames'' ''=='' ''a.com''])
   \<and> empty_field_leaf \<notin> set (snd (hostname_filters [empty_field_leaf]))"
  by (simp add: hostname_filters_def or_group_def empty_field_leaf_def leaf_def dict_get_def)

text \<open>
  C1, amended. For every filter tree \<open>T\<close> of leaf predicates and nested \<^verbatim>\<open>and\<close>/\<^verbatim>\<open>or\<close>
  groups (no dict with both keys), \<^verbatim>\<open>_hostname_filters(T)\<close> returns \<open>(T', H)\<close> where
  \<open>H\<close> holds every leaf of \<open>T\<close> named \<^verbatim>\<open>hostnames\<close> exactly once, in order and in its
  rebuilt form (\<^verbatim>\<open>name\<close>, \<^verbatim>\<open>op\<close>, \<^verbatim>\<open>val\<close>, and \<^verbatim>\<open>field\<close> only when it is truthy); no
  leaf of \<open>T'\<close> is named \<^verbatim>\<open>hostnames\<close>; \<open>T'\<close> is \<open>T\<close> with those leaves removed, the
  other leaves rebuilt and in their order, every group of its kind and in its place, and
  the groups left empty omitted. When every leaf has \<^verbatim>\<open>name\<close>, \<^verbatim>\<open>op\<close>, \<^verbatim>\<open>val\<close> and no
  falsy \<^verbatim>\<open>field\<close> and every group has its one key only, the leaves come out as they went
  in, and if moreover \<open>T\<close> has no \<^verbatim>\<open>hostnames\<close> leaf and no empty group the result is
  \<open>(T, [])\<close>. The example of the specification evaluates as given.
\<close>

theorem hostname_filters_extracts:
  assumes "one_kind T"
  shows "hostname_filters T =
           (without_hostnames T, map rebuilt (filter named_hostnames (leaves T)))
       \<and> filter named_hostnames (leaves (fst (hostname_filters T))) = []
       \<and> leaves (fst (hostname_filters T)) =
           map rebuilt (filter (\<lambda>l. \<not> named_hostnames l) (leaves T))
       \<and> (wf_tree T \<longrightarrow>
            snd (hostname_filters T) = filter named_hostnames (leaves T)
            \<and> leaves (fst (hostname_filters T)) = filter (\<lambda>l. \<not> named_hostnames l) (leaves T))
       \<and> (wf_tree T \<and> filter named_hostnames (leaves T) = [] \<and> no_empty_group T
            \<longrightarrow> hostname_filters T = (T, []))
       \<and> hostname_filters example_tree =
           ([or_group [and_group [leaf ''severity'' ''=='' ''high'']]],
            [leaf ''hostnames'' ''=='' ''a.com''])"
proof -
  have eq: "hostname_filters T =
      (without_hostnames T, map rebuilt (filter named_hostnames (leaves T)))"
    using hostname_filters_loop_eq [OF assms, of "[]" "[]"] by (simp add: hostname_filters_def)
  have lv: "leaves (fst (hostname_filters T)) =
      map rebuilt (filter (\<lambda>l. \<not> named_hostnames l) (leaves T))"
    by (simp add: eq leaves_without_hostnames [OF assms])
  have none: "filter named_hostnames (leaves (fst (hostname_filters T))) = []"
    unfolding lv by (rule no_hostnames_left)
  have plain: "wf_tree T \<longrightarrow>
      snd (hostname_filters T) = filter named_hostnames (leaves T)
      \<and> leaves (fst (hostname_filters T)) = filter (\<lambda>l. \<not> named_hostnames l) (leaves T)"
  proof
    assume "wf_tree T"
    then have "map rebuilt (leaves T) = leaves T" by (rule wf_tree_rebuilt)
    then show "snd (hostname_filters T) = filter named_hostnames (leaves T)
      \<and> leaves (fst (hostname_filters T)) = filter (\<lambda>l. \<not> named_hostnames l) (leaves T)"
      unfolding lv by (simp add: eq map_filter_fixed)
  qed
  have noop: "wf_tree T \<and> filter named_hostnames (leaves T) = [] \<and> no_empty_group T
      \<longrightarrow> hostname_filters T = (T, [])"
    by (simp add: eq without_hostnames_id)
  from eq none lv plain noop example_tree_result show ?thesis by blast
qed

theorem hostname_filters_extracts_witness:
  "one_kind example_tree
   \<and> wf_tree example_tree
   \<and> hostname_filters example_tree =
       (without_hostnames example_tree, [leaf ''hostnames'' ''=='' ''a.com''])
   \<and> snd (hostname_filters example_tree) = filter named_hostnames (leaves example_tree)
   \<and> one_kind [or_group [leaf ''severity'' ''=='' ''high'']]
   \<and> wf_tree [or_group [leaf ''severity'' ''=='' ''high'']]
   \<and> filter named_hostnames (leaves [or_group [leaf ''severity'' ''=='' ''high'']]) = []
   \<and> no_empty_group [or_group [leaf ''severity'' ''=='' ''high'']]
   \<and> hostname_filters [or_group [leaf ''severity'' ''=='' ''high'']] =
       ([or_group [leaf ''severity'' ''=='' ''high'']], [])"
proof -
  have ok: "one_kind example_tree"
    by (simp add: example_tree_def or_group_def and_group_def leaf_def)
  have wfe: "wf_tree example_tree"
    by (simp add: example_tree_def or_group_def and_group_def leaf_def)
  have hl: "map rebuilt (filter named_hostnames (leaves example_tree)) =
      [leaf ''hostnames'' ''=='' ''a.com'']"
    by (simp add: example_tree_def or_group_def and_group_def leaf_def named_hostnames_def
        rebuilt_def dict_get_def)
  note first = hostname_filters_extracts [OF ok]
  from first hl have e1: "hostname_filters example_tree =
       (without_hostnames example_tree, [leaf ''hostnames'' ''=='' ''a.com''])"
    by simp
  from first wfe have e2:
    "snd (hostname_filters example_tree) = filter named_hostnames (leaves example_tree)"
    by blast
  have ok2: "one_kind [or_group [leaf ''severity'' ''=='' ''high'']]"
    by (simp add: or_group_def leaf_def)
  have wf: "wf_tree [or_group [leaf ''severity'' ''=='' ''high'']]"
    by (simp add: or_group_def leaf_def)
  have nh: "filter named_hostnames (leaves [or_group [leaf ''severity'' ''=='' ''high'']]) = []"
    by (simp add: or_group_def leaf_def named_hostnames_def)
  have ne: "no_empty_group [or_group [leaf ''severity'' ''=='' ''high'']]"
    by (simp add: or_group_def leaf_def)
  from hostname_filters_extracts [OF ok2] wf nh ne
  have e3: "hostname_filters [or_group [leaf ''severity'' ''=='' ''high'']] =
       ([or_group [leaf ''severity'' ''=='' ''high'']], [])"
    by blast
  from ok wfe e1 e2 ok2 wf nh ne e3 show ?thesis by blast
qed

section \<open>Properties of \<^verbatim>\<open>_generate_filter_query\<close>\<close>

lemma scoped_rows:
  "scoped w q \<Longrightarrow> r \<in> set (rows orm q) \<Longrightarrow> v_workspace_id (fst r) = w_id w"
  by (induction q arbitrary: r) auto

lemma generate_filter_query_scoped:
  assumes "generate_filter_query sr cls filters hs ws mp = Inr (vulns, filters')"
  shows "scoped ws vulns"
  using assms
  by (auto simp: generate_filter_query_def Let_def
      split: option.splits sum.splits if_splits)

lemma hostname_or_filters_vals:
  "\<forall>h \<in> set hs. key_val h \<noteq> None \<Longrightarrow>
     hostname_or_filters hs = Inr (map (\<lambda>h. HostnameNameEq (the (key_val h))) hs)"
  by (induction hs) auto

lemma hostname_or_filters_criteria:
  "\<forall>h \<in> set hs. key_val h \<noteq> None \<Longrightarrow> hostname_or_filters hs = Inr (hostname_criteria hs)"
  unfolding hostname_criteria_def by (rule hostname_or_filters_vals)

lemma generate_filter_query_hostnames:
  assumes "hs \<noteq> []" and "hostname_or_filters hs = Inr ors"
    and "sr cls (without_host_os filters) = None"
    and "top_host_os filters \<noteq> [] \<longrightarrow> key_val (hd (top_host_os filters)) = Some os_value"
  shows "generate_filter_query sr cls filters hs ws mp =
     Inr ((if f_group_by filters = None then (\<lambda>q. Options q eager_loaders) else (\<lambda>q. q))
            (if top_host_os filters = []
             then hostname_union (scoped_search cls (without_host_os filters) ws) ors
             else Filter (Join (Join
                    (hostname_union (scoped_search cls (without_host_os filters) ws) ors)
                    Host) Service) (HostOsEq os_value)),
          without_host_os filters)"
proof (cases "top_host_os filters = []")
  case True
  with assms show ?thesis
    by (simp add: generate_filter_query_def Let_def hostname_union_def via_host_def
        via_service_def scoped_search_def without_host_os_def top_host_os_def)
next
  case False
  with assms show ?thesis
    by (simp add: generate_filter_query_def Let_def hostname_union_def via_host_def
        via_service_def scoped_search_def without_host_os_def top_host_os_def)
qed

lemma entities_hostname_union:
  "entities orm (hostname_union q ors) =
     remdups (entities orm (via_host q ors) @ entities orm (via_service q ors))"
  by (simp add: entities_def hostname_union_def comp_def)

lemma entities_Options: "entities orm (Options q ls) = entities orm q"
  by (simp add: entities_def)

lemma entities_Filter_subset: "set (entities orm (Filter q c)) \<subseteq> set (entities orm q)"
  by (auto simp: entities_def)

lemma entities_Join_subset: "set (entities orm (Join q t)) \<subseteq> set (entities orm q)"
  by (force simp: entities_def)

lemma entities_scoped_search_subset:
  "set (entities orm (scoped_search cls fs w)) \<subseteq> set (searched_rows orm cls fs)"
  by (auto simp: entities_def scoped_search_def)

lemma entities_via_host_subset:
  "set (entities orm (via_host (scoped_search cls fs w) ors)) \<subseteq> set (searched_rows orm cls fs)"
  unfolding via_host_def
  using entities_Filter_subset entities_Join_subset entities_scoped_search_subset
  by (meson subset_trans)

lemma entities_via_service_subset:
  "set (entities orm (via_service (scoped_search cls fs w) ors)) \<subseteq> set (searched_rows orm cls fs)"
  unfolding via_service_def
  using entities_Filter_subset entities_Join_subset entities_scoped_search_subset
  by (meson subset_trans)

text \<open>
  C3, amended. For every non-empty list of extracted hostname predicates (the translator
  not raising), \<^verbatim>\<open>_generate_filter_query\<close> builds the OR-combination of
  \<^verbatim>\<open>Hostname.name == val\<close> over the extracted values and the union of the vulnerabilities
  reached via Host and Hostname and those reached via Service, Host and Hostname, on the
  translator's query scoped to the workspace. When the filter dict has no top-level
  \<^verbatim>\<open>host__os\<close> predicate it returns that union (under the loader options, when there is
  no \<^verbatim>\<open>group_by\<close>): its rows are distinct, they are the set union of the rows of the two
  paths, and when the id is a key of the translator's rows no id appears twice. When the
  dict has a top-level \<^verbatim>\<open>host__os\<close> predicate it returns that union joined through Host
  and Service and filtered by \<^verbatim>\<open>Host.os\<close> with the first such value, whose vulnerabilities
  are among those of the union.
\<close>

theorem generate_filter_query_hostname_union:
  assumes "hs \<noteq> []" and "\<forall>h \<in> set hs. key_val h \<noteq> None"
    and "sr cls (without_host_os filters) = None"
    and "top_host_os filters \<noteq> [] \<longrightarrow> key_val (hd (top_host_os filters)) \<noteq> None"
  shows "\<exists>vulns. generate_filter_query sr cls filters hs ws mp =
            Inr (vulns, without_host_os filters)
      \<and> (top_host_os filters = [] \<longrightarrow>
            without_options vulns =
              hostname_union (scoped_search cls (without_host_os filters) ws)
                (hostname_criteria hs)
            \<and> distinct (entities orm vulns)
            \<and> set (entities orm vulns) =
                set (entities orm (via_host (scoped_search cls (without_host_os filters) ws)
                       (hostname_criteria hs)))
                \<union> set (entities orm (via_service (scoped_search cls (without_host_os filters) ws)
                       (hostname_criteria hs)))
            \<and> (inj_on v_id (set (searched_rows orm cls (without_host_os filters)))
                 \<longrightarrow> distinct (map v_id (entities orm vulns))))
      \<and> (top_host_os filters \<noteq> [] \<longrightarrow>
            without_options vulns =
              Filter (Join (Join
                 (hostname_union (scoped_search cls (without_host_os filters) ws)
                    (hostname_criteria hs)) Host) Service)
                 (HostOsEq (the (key_val (hd (top_host_os filters)))))
            \<and> set (entities orm vulns) \<subseteq>
                set (entities orm
                  (hostname_union (scoped_search cls (without_host_os filters) ws)
                     (hostname_criteria hs))))"
proof -
  define ors where "ors = hostname_criteria hs"
  define F where "F = without_host_os filters"
  define U where "U = hostname_union (scoped_search cls F ws) ors"
  define body where "body =
     (if top_host_os filters = [] then U
      else Filter (Join (Join U Host) Service)
             (HostOsEq (the (key_val (hd (top_host_os filters))))))"
  define vulns where
    "vulns = (if f_group_by filters = None then Options body eager_loaders else body)"
  have ors: "hostname_or_filters hs = Inr ors"
    unfolding ors_def by (rule hostname_or_filters_criteria) (rule assms(2))
  have os: "top_host_os filters \<noteq> [] \<longrightarrow>
      key_val (hd (top_host_os filters)) = Some (the (key_val (hd (top_host_os filters))))"
    using assms(4) by auto
  have res: "generate_filter_query sr cls filters hs ws mp = Inr (vulns, F)"
    using generate_filter_query_hostnames [where sr = sr and cls = cls and filters = filters
        and hs = hs and ors = ors and ws = ws and mp = mp, OF assms(1) ors assms(3) os]
    by (simp add: vulns_def body_def U_def F_def)
  have wo: "without_options vulns = body"
    by (simp add: vulns_def body_def U_def hostname_union_def)
  have ent: "entities orm vulns = entities orm body"
    by (simp add: vulns_def entities_Options)
  have entU: "entities orm U =
      remdups (entities orm (via_host (scoped_search cls F ws) ors)
               @ entities orm (via_service (scoped_search cls F ws) ors))"
    by (simp add: U_def entities_hostname_union)
  have subU: "set (entities orm U) \<subseteq> set (searched_rows orm cls F)"
    using entities_via_host_subset [of orm cls F ws ors]
      entities_via_service_subset [of orm cls F ws ors]
    by (simp add: entU)
  have no_os: "top_host_os filters = [] \<longrightarrow>
      without_options vulns = U
      \<and> distinct (entities orm vulns)
      \<and> set (entities orm vulns) =
          set (entities orm (via_host (scoped_search cls F ws) ors))
          \<union> set (entities orm (via_service (scoped_search cls F ws) ors))
      \<and> (inj_on v_id (set (searched_rows orm cls F))
           \<longrightarrow> distinct (map v_id (entities orm vulns)))"
  proof
    assume none: "top_host_os filters = []"
    then have b: "body = U" by (simp add: body_def)
    have dist: "distinct (entities orm vulns)"
      by (simp add: ent b entU)
    have un: "set (entities orm vulns) =
          set (entities orm (via_host (scoped_search cls F ws) ors))
          \<union> set (entities orm (via_service (scoped_search cls F ws) ors))"
      by (simp add: ent b entU)
    have ids: "inj_on v_id (set (searched_rows orm cls F))
           \<longrightarrow> distinct (map v_id (entities orm vulns))"
    proof
      assume "inj_on v_id (set (searched_rows orm cls F))"
      then have "inj_on v_id (set (entities orm vulns))"
        using subU by (simp add: ent b inj_on_subset)
      with dist show "distinct (map v_id (entities orm vulns))"
        by (simp add: distinct_map)
    qed
    from wo b dist un ids show "without_options vulns = U
      \<and> distinct (entities orm vulns)
      \<and> set (entities orm vulns) =
          set (entities orm (via_host (scoped_search cls F ws) ors))
          \<union> set (entities orm (via_service (scoped_search cls F ws) ors))
      \<and> (inj_on v_id (set (searched_rows orm cls F))
           \<longrightarrow> distinct (map v_id (entities orm vulns)))"
      by simp
  qed
  have with_os: "top_host_os filters \<noteq> [] \<longrightarrow>
      without_options vulns =
        Filter (Join (Join U Host) Service)
          (HostOsEq (the (key_val (hd (top_host_os filters)))))
      \<and> set (entities orm vulns) \<subseteq> set (entities orm U)"
  proof
    assume some: "top_host_os filters \<noteq> []"
    then have b: "body = Filter (Join (Join U Host) Service)
          (HostOsEq (the (key_val (hd (top_host_os filters)))))"
      by (simp add: body_def)
    have "set (entities orm body) \<subseteq> set (entities orm U)"
      unfolding b
      using entities_Filter_subset entities_Join_subset by (meson subset_trans)
    with wo b ent show "without_options vulns =
        Filter (Join (Join U Host) Service)
          (HostOsEq (the (key_val (hd (top_host_os filters)))))
      \<and> set (entities orm vulns) \<subseteq> set (entities orm U)"
      by simp
  qed
  from res no_os with_os show ?thesis
    unfolding U_def ors_def F_def by blast
qed

lemmas eval_defs = generate_filter_query_def never_raises_def filters_of_def leaf_def
      or_group_def and_group_def
      get_filters_def named_host_os_def dict_get_def empty_filters_def Let_def
      hostname_union_def via_host_def via_service_def scoped_search_def
      top_host_os_def without_host_os_def hostname_criteria_def

lemmas row_defs = entities_def example_orm_def vuln1_def vuln2_def vuln3_def ws1_def

text \<open>
  C2. For every filter tree, every list of extracted hostname predicates and every
  workspace: every row of the query that \<^verbatim>\<open>_generate_filter_query\<close> returns belongs to
  the workspace passed in, whatever the database holds and whatever the filters are.
\<close>

theorem generate_filter_query_workspace:
  assumes "generate_filter_query sr cls filters hs ws mp = Inr (vulns, filters')"
  shows "\<forall>r \<in> set (rows orm vulns). v_workspace_id (fst r) = w_id ws"
  using scoped_rows [OF generate_filter_query_scoped [OF assms]] by blast

lemma example_query:
  "generate_filter_query never_raises VulnerabilityGeneric example_filters
     [leaf ''hostnames'' ''=='' ''a.com''] ws1 filter_params =
   Inr (Options (hostname_union (scoped_search VulnerabilityGeneric example_filters ws1)
                   [HostnameNameEq (PStr ''a.com'')]) eager_loaders,
        example_filters)"
  by (simp add: eval_defs example_filters_def)

text \<open>
  The query built for one severity predicate and one hostname predicate, on the example
  database: the vulnerability of workspace 2 is not among its rows.
\<close>

theorem generate_filter_query_workspace_witness:
  "generate_filter_query never_raises VulnerabilityGeneric example_filters
     [leaf ''hostnames'' ''=='' ''a.com''] ws1 filter_params =
   Inr (Options (hostname_union (scoped_search VulnerabilityGeneric example_filters ws1)
                   [HostnameNameEq (PStr ''a.com'')]) eager_loaders,
        example_filters)
   \<and> rows (example_orm ''linux'' 1)
          (Options (hostname_union (scoped_search VulnerabilityGeneric example_filters ws1)
                   [HostnameNameEq (PStr ''a.com'')]) eager_loaders)
       = [(vuln1, ()), (vuln3, ())]
   \<and> v_workspace_id vuln1 = w_id ws1
   \<and> v_workspace_id vuln3 = w_id ws1"
proof -
  have r: "rows (example_orm ''linux'' 1)
          (Options (hostname_union (scoped_search VulnerabilityGeneric example_filters ws1)
                   [HostnameNameEq (PStr ''a.com'')]) eager_loaders)
       = [(vuln1, ()), (vuln3, ())]"
    by (simp add: eval_defs row_defs)
  from generate_filter_query_workspace [OF example_query, of "example_orm ''linux'' 1"]
  have "v_workspace_id vuln1 = w_id ws1 \<and> v_workspace_id vuln3 = w_id ws1"
    unfolding r by simp
  with example_query r show ?thesis by blast
qed

lemma example_os_hostname_query:
  "generate_filter_query never_raises VulnerabilityGeneric
        (filters_of [leaf ''host__os'' ''=='' ''linux''])
        [leaf ''hostnames'' ''=='' ''a.com''] ws1 filter_params =
      Inr (Options (Filter (Join (Join
             (hostname_union (scoped_search VulnerabilityGeneric (filters_of []) ws1)
                [HostnameNameEq (PStr ''a.com'')]) Host) Service)
             (HostOsEq (PStr ''linux''))) eager_loaders,
           filters_of [])"
  by (simp add: eval_defs)

text \<open>
  The hypotheses of the amended C3 hold for one hostname predicate beside a severity
  predicate, where the result is the union and its rows are distinct on a database whose
  hosts have two services, and for one hostname predicate beside a \<^verbatim>\<open>host__os\<close>
  predicate, where the result is the OS join over the union.
\<close>

theorem generate_filter_query_hostname_union_witness:
  "[leaf ''hostnames'' ''=='' ''a.com''] \<noteq> []
   \<and> key_val (leaf ''hostnames'' ''=='' ''a.com'') \<noteq> None
   \<and> never_raises VulnerabilityGeneric (without_host_os example_filters) = None
   \<and> top_host_os example_filters = []
   \<and> generate_filter_query never_raises VulnerabilityGeneric example_filters
          [leaf ''hostnames'' ''=='' ''a.com''] ws1 filter_params =
        Inr (Options (hostname_union (scoped_search VulnerabilityGeneric example_filters ws1)
                   [HostnameNameEq (PStr ''a.com'')]) eager_loaders, example_filters)
   \<and> distinct (entities (example_orm ''linux'' 2)
          (Options (hostname_union (scoped_search VulnerabilityGeneric example_filters ws1)
                   [HostnameNameEq (PStr ''a.com'')]) eager_loaders))
   \<and> top_host_os (filters_of [leaf ''host__os'' ''=='' ''linux'']) \<noteq> []
   \<and> key_val (hd (top_host_os (filters_of [leaf ''host__os'' ''=='' ''linux'']))) \<noteq> None
   \<and> never_raises VulnerabilityGeneric
         (without_host_os (filters_of [leaf ''host__os'' ''=='' ''linux''])) = None
   \<and> set (entities (example_orm ''windows'' 1)
          (Options (Filter (Join (Join
             (hostname_union (scoped_search VulnerabilityGeneric (filters_of []) ws1)
                [HostnameNameEq (PStr ''a.com'')]) Host) Service)
             (HostOsEq (PStr ''linux''))) eager_loaders))
       \<subseteq> set (entities (example_orm ''windows'' 1)
             (hostname_union (scoped_search VulnerabilityGeneric (filters_of []) ws1)
                [HostnameNameEq (PStr ''a.com'')]))"
proof -
  let ?hs = "[leaf ''hostnames'' ''=='' ''a.com'']"
  let ?os = "filters_of [leaf ''host__os'' ''=='' ''linux'']"
  have h1: "?hs \<noteq> []" by simp
  have h2: "\<forall>h \<in> set ?hs. key_val h \<noteq> None"
    by (simp add: leaf_def)
  have k: "key_val (leaf ''hostnames'' ''=='' ''a.com'') \<noteq> None"
    by (simp add: leaf_def)
  have crit: "hostname_criteria ?hs = [HostnameNameEq (PStr ''a.com'')]"
    by (simp add: hostname_criteria_def leaf_def)
  have t1: "top_host_os example_filters = []"
    by (simp add: eval_defs example_filters_def)
  have w1: "without_host_os example_filters = example_filters"
    by (simp add: without_host_os_def t1)
  have r1: "never_raises VulnerabilityGeneric (without_host_os example_filters) = None"
    by (simp add: never_raises_def)
  have o1: "top_host_os example_filters \<noteq> [] \<longrightarrow>
      key_val (hd (top_host_os example_filters)) \<noteq> None"
    by (simp add: t1)
  from generate_filter_query_hostname_union [where sr = never_raises
      and cls = VulnerabilityGeneric and filters = example_filters and ws = ws1
      and mp = filter_params and orm = "example_orm ''linux'' 2", OF h1 h2 r1 o1]
  obtain vulns where
    v: "generate_filter_query never_raises VulnerabilityGeneric example_filters ?hs ws1
          filter_params = Inr (vulns, without_host_os example_filters)"
    and d: "distinct (entities (example_orm ''linux'' 2) vulns)"
    using t1 by blast
  from v example_query have vq: "vulns =
      Options (hostname_union (scoped_search VulnerabilityGeneric example_filters ws1)
                   [HostnameNameEq (PStr ''a.com'')]) eager_loaders"
    by simp
  have t2: "top_host_os ?os \<noteq> []"
    by (simp add: eval_defs)
  have k2: "key_val (hd (top_host_os ?os)) \<noteq> None"
    by (simp add: eval_defs)
  have w2: "without_host_os ?os = filters_of []"
    by (simp add: eval_defs)
  have r2: "never_raises VulnerabilityGeneric (without_host_os ?os) = None"
    by (simp add: never_raises_def)
  have o2: "top_host_os ?os \<noteq> [] \<longrightarrow> key_val (hd (top_host_os ?os)) \<noteq> None"
    using k2 by simp
  from generate_filter_query_hostname_union [where sr = never_raises
      and cls = VulnerabilityGeneric and filters = ?os and ws = ws1
      and mp = filter_params and orm = "example_orm ''windows'' 1", OF h1 h2 r2 o2]
  obtain vulns2 where
    v2: "generate_filter_query never_raises VulnerabilityGeneric ?os ?hs ws1
          filter_params = Inr (vulns2, without_host_os ?os)"
    and s2: "set (entities (example_orm ''windows'' 1) vulns2) \<subseteq>
        set (entities (example_orm ''windows'' 1)
          (hostname_union (scoped_search VulnerabilityGeneric (without_host_os ?os) ws1)
             (hostname_criteria ?hs)))"
    using t2 by blast
  from v2 have "Inr (vulns2, without_host_os ?os) =
      (Inr (Options (Filter (Join (Join
             (hostname_union (scoped_search VulnerabilityGeneric (filters_of []) ws1)
                [HostnameNameEq (PStr ''a.com'')]) Host) Service)
             (HostOsEq (PStr ''linux''))) eager_loaders, filters_of [])
        :: error + query \<times> filters_dict)"
    unfolding example_os_hostname_query by (rule sym)
  then have "vulns2 =
      Options (Filter (Join (Join
             (hostname_union (scoped_search VulnerabilityGeneric (filters_of []) ws1)
                [HostnameNameEq (PStr ''a.com'')]) Host) Service)
             (HostOsEq (PStr ''linux''))) eager_loaders
      \<and> without_host_os ?os = filters_of []"
    by (simp only: sum.inject prod.inject)
  then have vq2: "vulns2 =
      Options (Filter (Join (Join
             (hostname_union (scoped_search VulnerabilityGeneric (filters_of []) ws1)
                [HostnameNameEq (PStr ''a.com'')]) Host) Service)
             (HostOsEq (PStr ''linux''))) eager_loaders"
    by (rule conjunct1)
  from h1 k r1 t1 example_query d t2 k2 r2 s2 show ?thesis
    unfolding vq vq2 w2 crit by blast
qed

text \<open>
  C3, as stated, with a hostname predicate and a top-level \<^verbatim>\<open>host__os\<close> predicate: the
  query returned is not the union but the union joined through Host and Service and
  filtered by the OS value. On a database whose hosts run another system the union has the
  rows 10 and 30 and the result has none; on a database whose hosts have two services each
  vulnerability of the union appears twice in the result.
\<close>

theorem generate_filter_query_union_counterexample:
  "generate_filter_query never_raises VulnerabilityGeneric
        (filters_of [leaf ''host__os'' ''=='' ''linux''])
        [leaf ''hostnames'' ''=='' ''a.com''] ws1 filter_params =
      Inr (Options (Filter (Join (Join
             (hostname_union (scoped_search VulnerabilityGeneric (filters_of []) ws1)
                [HostnameNameEq (PStr ''a.com'')]) Host) Service)
             (HostOsEq (PStr ''linux''))) eager_loaders,
           filters_of [])
   \<and> entities (example_orm ''windows'' 1)
         (hostname_union (scoped_search VulnerabilityGeneric (filters_of []) ws1)
                [HostnameNameEq (PStr ''a.com'')]) = [vuln1, vuln3]
   \<and> entities (example_orm ''windows'' 1)
         (Options (Filter (Join (Join
             (hostname_union (scoped_search VulnerabilityGeneric (filters_of []) ws1)
                [HostnameNameEq (PStr ''a.com'')]) Host) Service)
             (HostOsEq (PStr ''linux''))) eager_loaders) = []
   \<and> entities (example_orm ''linux'' 2)
         (Options (Filter (Join (Join
             (hostname_union (scoped_search VulnerabilityGeneric (filters_of []) ws1)
                [HostnameNameEq (PStr ''a.com'')]) Host) Service)
             (HostOsEq (PStr ''linux''))) eager_loaders) = [vuln1, vuln1, vuln3, vuln3]"
  by (simp add: eval_defs row_defs numeral_2_eq_2)

lemma searches_result:
  assumes "generate_filter_query sr cls filters hs ws mp = Inr (vulns, filters')"
  shows "set (searches vulns) = {(cls, filters')}"
  using assms
  by (auto simp: generate_filter_query_def Let_def
      split: option.splits sum.splits if_splits)

lemma filters_result:
  assumes "generate_filter_query sr cls filters hs ws mp = Inr (vulns, filters')"
  shows "filters' = (if filter named_host_os (get_filters filters) \<noteq> []
                    then filters\<lparr>f_filters :=
                           Some (filter (\<lambda>f. \<not> named_host_os f) (get_filters filters))\<rparr>
                    else filters)"
  using assms
  by (auto simp: generate_filter_query_def Let_def
      split: option.splits sum.splits if_splits)

lemma filter_not_id: "filter P xs = [] \<Longrightarrow> filter (\<lambda>x. \<not> P x) xs = xs"
  by (induction xs) (auto split: if_splits)

lemma get_filters_result:
  assumes "generate_filter_query sr cls filters hs ws mp = Inr (vulns, filters')"
  shows "get_filters filters' = filter (\<lambda>f. \<not> named_host_os f) (get_filters filters)"
  using filters_result [OF assms]
  by (auto simp: get_filters_def filter_not_id)

lemma os_reapplied:
  assumes "generate_filter_query sr cls filters hs ws mp = Inr (vulns, filters')"
    and "filter named_host_os (get_filters filters) \<noteq> []"
  shows "\<exists>inner os_value.
      key_val (hd (filter named_host_os (get_filters filters))) = Some os_value
      \<and> without_options vulns = Filter (Join (Join inner Host) Service) (HostOsEq os_value)"
  using assms
  by (auto simp: generate_filter_query_def Let_def
      split: option.splits sum.splits if_splits)

text \<open>
  C6, amended. Every predicate that is an element of \<^verbatim>\<open>filters['filters']\<close> itself (not
  inside an \<^verbatim>\<open>and\<close>/\<^verbatim>\<open>or\<close> group) and is named \<^verbatim>\<open>host__os\<close> is removed from the
  list before the dict is handed to the translator, the only call of the translator in the
  query is the one with that dict, and when such a predicate was found the result is,
  under the loader options, a query joined through Host and Service and filtered by
  \<^verbatim>\<open>Host.os == val\<close> with the value of the first of them.
\<close>

theorem generate_filter_query_host_os:
  assumes "generate_filter_query sr cls filters hs ws mp = Inr (vulns, filters')"
  shows "get_filters filters' = filter (\<lambda>f. \<not> named_host_os f) (get_filters filters)
     \<and> filter named_host_os (get_filters filters') = []
     \<and> set (searches vulns) = {(cls, filters')}
     \<and> (filter named_host_os (get_filters filters) \<noteq> [] \<longrightarrow>
          (\<exists>inner os_value.
             key_val (hd (filter named_host_os (get_filters filters))) = Some os_value
             \<and> without_options vulns =
                 Filter (Join (Join inner Host) Service) (HostOsEq os_value)))"
proof -
  have a: "get_filters filters' = filter (\<lambda>f. \<not> named_host_os f) (get_filters filters)"
    by (rule get_filters_result [OF assms])
  have b: "filter named_host_os (get_filters filters') = []"
    by (simp add: a)
  from a b searches_result [OF assms] os_reapplied [OF assms] show ?thesis by blast
qed

lemma example_os_query:
  "generate_filter_query never_raises VulnerabilityGeneric
     (filters_of [leaf ''host__os'' ''=='' ''linux'', leaf ''severity'' ''=='' ''high''])
     [] ws1 filter_params =
   Inr (Options (Filter (Join (Join (scoped_search VulnerabilityGeneric example_filters ws1)
                   Host) Service) (HostOsEq (PStr ''linux''))) eager_loaders,
        example_filters)"
  by (simp add: eval_defs example_filters_def)

text \<open>
  A top-level \<^verbatim>\<open>host__os\<close> predicate beside a severity predicate: the translator gets
  the severity predicate alone and the OS criterion is on the query.
\<close>

theorem generate_filter_query_host_os_witness:
  "generate_filter_query never_raises VulnerabilityGeneric
     (filters_of [leaf ''host__os'' ''=='' ''linux'', leaf ''severity'' ''=='' ''high''])
     [] ws1 filter_params =
   Inr (Options (Filter (Join (Join (scoped_search VulnerabilityGeneric example_filters ws1)
                   Host) Service) (HostOsEq (PStr ''linux''))) eager_loaders,
        example_filters)
   \<and> filter named_host_os (get_filters
        (filters_of [leaf ''host__os'' ''=='' ''linux'', leaf ''severity'' ''=='' ''high'']))
       \<noteq> []
   \<and> get_filters example_filters = [leaf ''severity'' ''=='' ''high'']
   \<and> filter named_host_os (get_filters example_filters) = []"
proof -
  have os: "filter named_host_os (get_filters
        (filters_of [leaf ''host__os'' ''=='' ''linux'', leaf ''severity'' ''=='' ''high'']))
       \<noteq> []"
    by (simp add: eval_defs)
  have gf: "get_filters example_filters = [leaf ''severity'' ''=='' ''high'']"
    by (simp add: example_filters_def filters_of_def get_filters_def)
  from generate_filter_query_host_os [OF example_os_query] example_os_query os gf
  show ?thesis by simp
qed

text \<open>
  C6, as stated, at the tree \<^verbatim>\<open>[{"or": [{"name": "host__os", "op": "==", "val": "linux"}]}]\<close>:
  the predicate sits inside a group, the comprehension over \<^verbatim>\<open>filters['filters']\<close> does
  not see it, the translator is called with the tree unchanged, and no OS criterion is put on
  the query.
\<close>

theorem generate_filter_query_nested_os_counterexample:
  "generate_filter_query never_raises VulnerabilityGeneric
     (filters_of [or_group [leaf ''host__os'' ''=='' ''linux'']]) [] ws1 filter_params =
   Inr (Options (Filter (Search VulnerabilityGeneric
                   (filters_of [or_group [leaf ''host__os'' ''=='' ''linux'']]))
                   (WorkspaceEq ws1)) eager_loaders,
        filters_of [or_group [leaf ''host__os'' ''=='' ''linux'']])
   \<and> filter named_host_os
        (leaves (get_filters (filters_of [or_group [leaf ''host__os'' ''=='' ''linux'']]))) =
       [leaf ''host__os'' ''=='' ''linux'']"
  by (simp add: eval_defs)

section \<open>Properties of \<^verbatim>\<open>_filter\<close>\<close>











lemma non_grouped_result:
  assumes "load_filters env payload = Inr (filters, hs)"
    and "f_group_by filters = None"
    and "c_get_workspace env workspace_name = Inr ws"
    and "generate_filter_query (c_search_raises env) VulnerabilityGeneric
           (filters\<lparr>f_offset := None, f_limit := None\<rparr>) hs ws filter_params = Inr (q, filters')"
  shows "filter_vulns env payload workspace_name =
     (Inr (c_dump env filter_params
             \<lparr>pq_query = q,
              pq_limit = applied (f_limit filters),
              pq_offset = applied (f_offset filters)\<rparr>,
           c_count_rows env q),
      [WorkspaceLookup workspace_name,
       FetchRows
             \<lparr>pq_query = q,
              pq_limit = applied (f_limit filters),
              pq_offset = applied (f_offset filters)\<rparr>,
       CountRows q])"
  using assms
  by (simp add: filter_vulns_def Let_def unpaginated_def limit_def offset_def applied_def
      split: option.splits)

lemma popped_filters:
  assumes "generate_filter_query sr cls (filters\<lparr>f_offset := None, f_limit := None\<rparr>) hs ws mp
           = Inr (q, filters')"
  shows "f_limit filters' = None \<and> f_offset filters' = None"
  using filters_result [OF assms] by (simp split: if_splits)

text \<open>
  C5. For every payload that loads to a dict without \<^verbatim>\<open>group_by\<close> (the workspace found,
  the query built): \<^verbatim>\<open>_filter\<close> returns the rows of the paginated query, dumped with
  \<^verbatim>\<open>_attachments\<close> excluded, and the count of the query without LIMIT and OFFSET; the dict
  the translator was called with has neither \<^verbatim>\<open>limit\<close> nor \<^verbatim>\<open>offset\<close>; and every
  payload that differs in \<^verbatim>\<open>limit\<close> and \<^verbatim>\<open>offset\<close> only gets the same count.
\<close>

theorem filter_vulns_non_grouped:
  assumes "load_filters env payload = Inr (filters, hs)"
    and "f_group_by filters = None"
    and "c_get_workspace env workspace_name = Inr ws"
    and "generate_filter_query (c_search_raises env) VulnerabilityGeneric
           (filters\<lparr>f_offset := None, f_limit := None\<rparr>) hs ws filter_params = Inr (q, filters')"
  shows "filter_vulns env payload workspace_name =
       (Inr (c_dump env filter_params
               \<lparr>pq_query = q, pq_limit = applied (f_limit filters),
                pq_offset = applied (f_offset filters)\<rparr>,
             c_count_rows env q),
        [WorkspaceLookup workspace_name,
         FetchRows \<lparr>pq_query = q, pq_limit = applied (f_limit filters),
                    pq_offset = applied (f_offset filters)\<rparr>,
         CountRows q])
     \<and> mp_exclude filter_params = [''_attachments'']
     \<and> set (searches q) = {(VulnerabilityGeneric, filters')}
     \<and> f_limit filters' = None \<and> f_offset filters' = None
     \<and> (\<forall>payload' l off.
           load_filters env payload' = Inr (filters\<lparr>f_limit := l, f_offset := off\<rparr>, hs)
           \<longrightarrow> map_sum id snd (fst (filter_vulns env payload' workspace_name)) =
                 Inr (c_count_rows env q))"
proof -
  have other: "map_sum id snd (fst (filter_vulns env payload' workspace_name)) =
      Inr (c_count_rows env q)"
    if l: "load_filters env payload' = Inr (filters\<lparr>f_limit := l, f_offset := off\<rparr>, hs)"
    for payload' l off
  proof -
    have g: "f_group_by (filters\<lparr>f_limit := l, f_offset := off\<rparr>) = None"
      using assms(2) by simp
    have q: "generate_filter_query (c_search_raises env) VulnerabilityGeneric
           ((filters\<lparr>f_limit := l, f_offset := off\<rparr>)\<lparr>f_offset := None, f_limit := None\<rparr>)
           hs ws filter_params = Inr (q, filters')"
      using assms(4) by simp
    show ?thesis
      by (simp add: non_grouped_result [OF l g assms(3) q])
  qed
  from non_grouped_result [OF assms] searches_result [OF assms(4)]
    popped_filters [OF assms(4)] other
  show ?thesis by (simp add: filter_params_def)
qed

lemma example_load:
  "load_filters example_env ''q'' = Inr (example_filters, [])"
  "load_filters example_env ''limit0'' = Inr (example_filters\<lparr>f_limit := Some (PInt 0)\<rparr>, [])"
  "load_filters example_env ''limit1'' = Inr (example_filters\<lparr>f_limit := Some (PInt 1)\<rparr>, [])"
  by (simp_all add: load_filters_def example_env_def example_filters_def filters_of_def
      empty_filters_def get_filters_def hostname_filters_def leaf_def dict_get_def)

lemma example_plain_query:
  "generate_filter_query (c_search_raises example_env) VulnerabilityGeneric
     (example_filters\<lparr>f_offset := None, f_limit := None\<rparr>) [] ws1 filter_params =
   Inr (Options (scoped_search VulnerabilityGeneric example_filters ws1) eager_loaders,
        example_filters)"
  by (simp add: eval_defs example_filters_def example_env_def)

lemma example_rows:
  "entities (example_orm ''linux'' 1)
     (Options (scoped_search VulnerabilityGeneric example_filters ws1) eager_loaders)
   = [vuln1, vuln3]"
  by (simp add: eval_defs row_defs)

text \<open>
  The example payload with no limit returns the rows 10 and 30 and the count 2; with
  \<^verbatim>\<open>"limit": 1\<close> the count is 2 as well.
\<close>

theorem filter_vulns_non_grouped_witness:
  "load_filters example_env ''q'' = Inr (example_filters, [])
   \<and> f_group_by example_filters = None
   \<and> c_get_workspace example_env ''ws1'' = Inr ws1
   \<and> load_filters example_env ''limit1'' =
        Inr (example_filters\<lparr>f_limit := Some (PInt 1), f_offset := None\<rparr>, [])
   \<and> fst (filter_vulns example_env ''q'' ''ws1'') = Inr ([vuln1, vuln3], 2)
   \<and> map_sum id snd (fst (filter_vulns example_env ''limit1'' ''ws1'')) = Inr 2"
proof -
  have g: "f_group_by example_filters = None"
    by (simp add: example_filters_def filters_of_def empty_filters_def)
  have w: "c_get_workspace example_env ''ws1'' = Inr ws1"
    by (simp add: example_env_def)
  have l1: "load_filters example_env ''limit1'' =
        Inr (example_filters\<lparr>f_limit := Some (PInt 1), f_offset := None\<rparr>, [])"
    by (simp add: example_load example_filters_def filters_of_def empty_filters_def)
  have ap: "applied (f_limit example_filters) = None" "applied (f_offset example_filters) = None"
    by (simp_all add: applied_def example_filters_def filters_of_def empty_filters_def)
  have d: "c_dump example_env filter_params
             \<lparr>pq_query = Options (scoped_search VulnerabilityGeneric example_filters ws1)
                 eager_loaders, pq_limit = None, pq_offset = None\<rparr> = [vuln1, vuln3]"
    using example_rows by (simp add: example_env_def fetch_def)
  have c: "c_count_rows example_env
             (Options (scoped_search VulnerabilityGeneric example_filters ws1) eager_loaders) = 2"
    using arg_cong [OF example_rows, of length]
    by (simp add: example_env_def entities_def)
  note main = filter_vulns_non_grouped [OF example_load(1) g w example_plain_query]
  from main have "\<forall>payload' l off.
      load_filters example_env payload' = Inr (example_filters\<lparr>f_limit := l, f_offset := off\<rparr>, [])
      \<longrightarrow> map_sum id snd (fst (filter_vulns example_env payload' ''ws1'')) =
            Inr (c_count_rows example_env
                  (Options (scoped_search VulnerabilityGeneric example_filters ws1)
                     eager_loaders))"
    by blast
  then have "map_sum id snd (fst (filter_vulns example_env ''limit1'' ''ws1'')) =
            Inr (c_count_rows example_env
                  (Options (scoped_search VulnerabilityGeneric example_filters ws1)
                     eager_loaders))"
    using l1 by blast
  then have n: "map_sum id snd (fst (filter_vulns example_env ''limit1'' ''ws1'')) = Inr 2"
    using c by simp
  from main have "fst (filter_vulns example_env ''q'' ''ws1'') = Inr ([vuln1, vuln3], 2)"
    using ap d c by simp
  with n l1 g w example_load(1) show ?thesis by simp
qed

text \<open>
  C9. In the non-grouped path a popped \<^verbatim>\<open>limit\<close> that is falsy (such as 0) gives the
  result of the payload without the key, and so does a falsy \<^verbatim>\<open>offset\<close>; when neither
  is truthy the query is dumped and counted with no LIMIT and no OFFSET on it.
\<close>

theorem filter_vulns_falsy_pagination:
  assumes "load_filters env payload = Inr (filters, hs)"
    and "f_group_by filters = None"
  shows "(\<forall>l payload'. f_limit filters = Some l \<and> \<not> truthy l
            \<and> load_filters env payload' = Inr (filters\<lparr>f_limit := None\<rparr>, hs)
          \<longrightarrow> filter_vulns env payload workspace_name =
                filter_vulns env payload' workspace_name)
     \<and> (\<forall>off payload'. f_offset filters = Some off \<and> \<not> truthy off
            \<and> load_filters env payload' = Inr (filters\<lparr>f_offset := None\<rparr>, hs)
          \<longrightarrow> filter_vulns env payload workspace_name =
                filter_vulns env payload' workspace_name)
     \<and> (\<forall>ws q filters'. applied (f_limit filters) = None \<and> applied (f_offset filters) = None
            \<and> c_get_workspace env workspace_name = Inr ws
            \<and> generate_filter_query (c_search_raises env) VulnerabilityGeneric
                  (filters\<lparr>f_offset := None, f_limit := None\<rparr>) hs ws filter_params
                = Inr (q, filters')
          \<longrightarrow> filter_vulns env payload workspace_name =
                (Inr (c_dump env filter_params (unpaginated q), c_count_rows env q),
                 [WorkspaceLookup workspace_name, FetchRows (unpaginated q), CountRows q]))"
proof (intro conjI allI impI)
  fix l payload'
  assume "f_limit filters = Some l \<and> \<not> truthy l
            \<and> load_filters env payload' = Inr (filters\<lparr>f_limit := None\<rparr>, hs)"
  with assms show "filter_vulns env payload workspace_name =
                filter_vulns env payload' workspace_name"
    by (simp add: filter_vulns_def Let_def unpaginated_def
        split: sum.split prod.split error.split)
next
  fix off payload'
  assume "f_offset filters = Some off \<and> \<not> truthy off
            \<and> load_filters env payload' = Inr (filters\<lparr>f_offset := None\<rparr>, hs)"
  with assms show "filter_vulns env payload workspace_name =
                filter_vulns env payload' workspace_name"
    by (simp add: filter_vulns_def Let_def unpaginated_def
        split: sum.split prod.split error.split)
next
  fix ws q filters'
  assume a: "applied (f_limit filters) = None \<and> applied (f_offset filters) = None
            \<and> c_get_workspace env workspace_name = Inr ws
            \<and> generate_filter_query (c_search_raises env) VulnerabilityGeneric
                  (filters\<lparr>f_offset := None, f_limit := None\<rparr>) hs ws filter_params
                = Inr (q, filters')"
  then have w: "c_get_workspace env workspace_name = Inr ws"
    and g: "generate_filter_query (c_search_raises env) VulnerabilityGeneric
                  (filters\<lparr>f_offset := None, f_limit := None\<rparr>) hs ws filter_params
                = Inr (q, filters')"
    by simp_all
  from a non_grouped_result [OF assms w g]
  show "filter_vulns env payload workspace_name =
                (Inr (c_dump env filter_params (unpaginated q), c_count_rows env q),
                 [WorkspaceLookup workspace_name, FetchRows (unpaginated q), CountRows q])"
    by (simp add: unpaginated_def)
qed

text \<open>
  The example payload with \<^verbatim>\<open>"limit": 0\<close> gives the result of the payload without
  \<^verbatim>\<open>limit\<close>.
\<close>

theorem filter_vulns_falsy_pagination_witness:
  "load_filters example_env ''limit0'' =
     Inr (example_filters\<lparr>f_limit := Some (PInt 0)\<rparr>, [])
   \<and> f_group_by (example_filters\<lparr>f_limit := Some (PInt 0)\<rparr>) = None
   \<and> f_limit (example_filters\<lparr>f_limit := Some (PInt 0)\<rparr>) = Some (PInt 0)
   \<and> \<not> truthy (PInt 0)
   \<and> load_filters example_env ''q'' =
       Inr (example_filters\<lparr>f_limit := Some (PInt 0)\<rparr>\<lparr>f_limit := None\<rparr>, [])
   \<and> filter_vulns example_env ''limit0'' ''ws1'' = filter_vulns example_env ''q'' ''ws1''"
proof -
  have g: "f_group_by (example_filters\<lparr>f_limit := Some (PInt 0)\<rparr>) = None"
    by (simp add: example_filters_def filters_of_def empty_filters_def)
  have q: "load_filters example_env ''q'' =
       Inr (example_filters\<lparr>f_limit := Some (PInt 0)\<rparr>\<lparr>f_limit := None\<rparr>, [])"
    by (simp add: example_load example_filters_def filters_of_def empty_filters_def)
  from filter_vulns_falsy_pagination [OF example_load(2) g, of "''ws1''"] g q example_load(2)
  show ?thesis by simp
qed

section \<open>Properties of \<^verbatim>\<open>count\<close>\<close>

lemma severity_map_get:
  "(case severity_map s of None \<Rightarrow> s | Some x \<Rightarrow> x) = rewrite_label s"
  by (simp add: severity_map_def rewrite_label_def)

lemma convert_group_ok:
  assumes "g ''severity'' = Some s" and "hashable s"
  shows "convert_group g =
     Inr (g(''severity'' \<mapsto> rewrite_label s, ''name'' \<mapsto> rewrite_label s))"
  using assms by (simp add: convert_group_def severity_map_get Let_def)

lemma convert_groups_ok:
  assumes "\<forall>g \<in> set gs. \<exists>s. g ''severity'' = Some s \<and> hashable s"
  shows "convert_groups gs =
     Inr (map (\<lambda>g. g(''severity'' \<mapsto> rewrite_label (the (g ''severity'')),
                     ''name'' \<mapsto> rewrite_label (the (g ''severity'')))) gs)"
  using assms
proof (induction gs)
  case Nil
  show ?case by simp
next
  case (Cons g gs)
  from Cons.prems obtain s where s: "g ''severity'' = Some s" "hashable s"
    by auto
  from Cons.prems have "\<forall>g \<in> set gs. \<exists>s. g ''severity'' = Some s \<and> hashable s"
    by simp
  then have rest: "convert_groups gs =
     Inr (map (\<lambda>g. g(''severity'' \<mapsto> rewrite_label (the (g ''severity'')),
                     ''name'' \<mapsto> rewrite_label (the (g ''severity'')))) gs)"
    by (rule Cons.IH)
  have s': "the (g ''severity'') = s"
    using s by simp
  have first: "convert_group g =
     Inr (g(''severity'' \<mapsto> rewrite_label (the (g ''severity'')),
            ''name'' \<mapsto> rewrite_label (the (g ''severity''))))"
    unfolding s' by (rule convert_group_ok [where g = g and s = s, OF s])
  show ?case
    by (simp only: convert_groups.simps first rest sum.case list.map)
qed

text \<open>
  C4. When \<^verbatim>\<open>count\<close> is called with \<^verbatim>\<open>group_by == 'severity'\<close> (every group having a
  severity that can be looked up), every group of the result has its severity label
  rewritten, \<^verbatim>\<open>informational\<close> to \<^verbatim>\<open>info\<close> and \<^verbatim>\<open>medium\<close> to \<^verbatim>\<open>med\<close>; the same
  label is put under \<^verbatim>\<open>severity\<close> and under \<^verbatim>\<open>name\<close>; every other severity is left as
  it is; and no other key of a group changes.
\<close>

theorem count_severity_rewrite:
  assumes "\<forall>g \<in> set (groups res). \<exists>s. g ''severity'' = Some s \<and> hashable s"
  shows "\<exists>res'. count (Some ''severity'') (Inr res) = Inr res'
      \<and> res_other res' = res_other res
      \<and> list_all2
           (\<lambda>g g'. g' ''severity'' = Some (rewrite_label (the (g ''severity'')))
                  \<and> g' ''name'' = Some (rewrite_label (the (g ''severity'')))
                  \<and> (\<forall>k. k \<noteq> ''severity'' \<and> k \<noteq> ''name'' \<longrightarrow> g' k = g k))
           (groups res) (groups res')
      \<and> rewrite_label (PStr ''informational'') = PStr ''info''
      \<and> rewrite_label (PStr ''medium'') = PStr ''med''
      \<and> (\<forall>s. s \<noteq> PStr ''informational'' \<and> s \<noteq> PStr ''medium'' \<longrightarrow> rewrite_label s = s)"
proof -
  define gs' where "gs' =
     map (\<lambda>g. g(''severity'' \<mapsto> rewrite_label (the (g ''severity'')),
               ''name'' \<mapsto> rewrite_label (the (g ''severity'')))) (groups res)"
  have c: "count (Some ''severity'') (Inr res) = Inr (res\<lparr>groups := gs'\<rparr>)"
    using convert_groups_ok [OF assms] by (simp add: count_def gs'_def)
  have l: "list_all2
           (\<lambda>g g'. g' ''severity'' = Some (rewrite_label (the (g ''severity'')))
                  \<and> g' ''name'' = Some (rewrite_label (the (g ''severity'')))
                  \<and> (\<forall>k. k \<noteq> ''severity'' \<and> k \<noteq> ''name'' \<longrightarrow> g' k = g k))
           (groups res) gs'"
    unfolding gs'_def by (simp add: list_all2_map2 list_all2_same)
  have r: "rewrite_label (PStr ''informational'') = PStr ''info''"
    "rewrite_label (PStr ''medium'') = PStr ''med''"
    "\<forall>s. s \<noteq> PStr ''informational'' \<and> s \<noteq> PStr ''medium'' \<longrightarrow> rewrite_label s = s"
    by (simp_all add: rewrite_label_def)
  from c l r show ?thesis
    by (intro exI [of _ "res\<lparr>groups := gs'\<rparr>"]) simp
qed

text \<open>
  Two groups, \<^verbatim>\<open>medium\<close> and \<^verbatim>\<open>high\<close>: the first becomes \<^verbatim>\<open>med\<close> under both keys,
  the second stays \<^verbatim>\<open>high\<close>, the counts are untouched.
\<close>

theorem count_severity_rewrite_witness:
  "hashable (PStr ''medium'') \<and> hashable (PStr ''high'')
   \<and> example_group ''medium'' ''severity'' = Some (PStr ''medium'')
   \<and> example_group ''high'' ''severity'' = Some (PStr ''high'')
   \<and> (\<exists>res'. count (Some ''severity'')
                (Inr \<lparr>groups = [example_group ''medium'', example_group ''high''],
                      res_other = []\<rparr>) = Inr res'
         \<and> map (\<lambda>g. g ''severity'') (groups res') = [Some (PStr ''med''), Some (PStr ''high'')]
         \<and> map (\<lambda>g. g ''name'') (groups res') = [Some (PStr ''med''), Some (PStr ''high'')]
         \<and> map (\<lambda>g. g ''count'') (groups res') = [Some (PInt 3), Some (PInt 3)])"
proof -
  let ?res = "\<lparr>groups = [example_group ''medium'', example_group ''high''], res_other = []\<rparr>"
  have m: "example_group ''medium'' ''severity'' = Some (PStr ''medium'')"
    and h: "example_group ''high'' ''severity'' = Some (PStr ''high'')"
    by (simp_all add: example_group_def)
  have hyp: "\<forall>g \<in> set (groups ?res). \<exists>s. g ''severity'' = Some s \<and> hashable s"
    using m h by simp
  from count_severity_rewrite [OF hyp] obtain res' where
    c: "count (Some ''severity'') (Inr ?res) = Inr res'"
    and l: "list_all2
           (\<lambda>g g'. g' ''severity'' = Some (rewrite_label (the (g ''severity'')))
                  \<and> g' ''name'' = Some (rewrite_label (the (g ''severity'')))
                  \<and> (\<forall>k. k \<noteq> ''severity'' \<and> k \<noteq> ''name'' \<longrightarrow> g' k = g k))
           (groups ?res) (groups res')"
    by blast
  from l obtain a b where ab: "groups res' = [a, b]"
    and a: "a ''severity'' = Some (rewrite_label (the (example_group ''medium'' ''severity'')))"
           "a ''name'' = Some (rewrite_label (the (example_group ''medium'' ''severity'')))"
           "a ''count'' = example_group ''medium'' ''count''"
    and b: "b ''severity'' = Some (rewrite_label (the (example_group ''high'' ''severity'')))"
           "b ''name'' = Some (rewrite_label (the (example_group ''high'' ''severity'')))"
           "b ''count'' = example_group ''high'' ''count''"
    by (auto simp: list_all2_Cons1)
  have "map (\<lambda>g. g ''severity'') (groups res') = [Some (PStr ''med''), Some (PStr ''high'')]"
    "map (\<lambda>g. g ''name'') (groups res') = [Some (PStr ''med''), Some (PStr ''high'')]"
    "map (\<lambda>g. g ''count'') (groups res') = [Some (PInt 3), Some (PInt 3)]"
    using ab a b by (simp_all add: example_group_def rewrite_label_def)
  with c m h show ?thesis by auto
qed

section \<open>Properties of the bulk delete\<close>

lemma filter_not_in_filter: "filter (\<lambda>v. v \<notin> set (filter P xs)) xs = filter (\<lambda>v. \<not> P v) xs"
  by (rule filter_cong) auto

lemma entities_severity_query:
  "entities orm (Filter (Filter (ModelQuery cls) (SeverityIn (PList sevs))) (WorkspaceIdEq n)) =
     filter (\<lambda>v. v_workspace_id v = n \<and> PStr (v_severity v) \<in> set sevs) (table_rows orm cls)"
  by (simp add: entities_def filter_map comp_def conj_commute)

lemma bulk_delete_query_severity:
  assumes "get_workspace workspace_name = Inr ws"
  shows "bulk_delete_query get_workspace cls (PList sevs) (Some ''severity'') workspace_name =
     Inr (Filter (Filter (ModelQuery cls) (SeverityIn (PList sevs))) (WorkspaceIdEq (w_id ws)))"
  using assms by (simp add: bulk_delete_query_def)

text \<open>
  C8. For every bulk-delete body that has the key \<^verbatim>\<open>severities\<close> with a list, whatever else
  it holds, \<^verbatim>\<open>bulk_delete\<close> calls \<^verbatim>\<open>_perform_bulk_delete\<close> with that list and
  \<^verbatim>\<open>by='severity'\<close>; the query of \<^verbatim>\<open>_bulk_delete_query\<close> selects by severity and by
  workspace; the table that remains is the table without the vulnerabilities of the
  addressed workspace whose severity is in the list, so no other row is deleted; and a body
  without the key, or no body, goes to the inherited delete by ids.
\<close>

theorem bulk_delete_by_severities:
  assumes "map_of body ''severities'' = Some (PList sevs)"
    and "get_workspace workspace_name = Inr ws"
  shows "bulk_delete (Some (PDict body)) workspace_name =
           Inr (PerformBulkDelete (PList sevs) ''severity'' workspace_name)
     \<and> bulk_delete_query get_workspace cls (PList sevs) (Some ''severity'') workspace_name =
           Inr (Filter (Filter (ModelQuery cls) (SeverityIn (PList sevs)))
                  (WorkspaceIdEq (w_id ws)))
     \<and> perform_bulk_delete orm get_workspace cls (PList sevs) ''severity'' workspace_name =
           Inr (filter (\<lambda>v. \<not> (v_workspace_id v = w_id ws \<and> PStr (v_severity v) \<in> set sevs))
                  (table_rows orm cls))
     \<and> (\<forall>body'. map_of body' ''severities'' = None \<longrightarrow>
           bulk_delete (Some (PDict body')) workspace_name = Inr (MixinBulkDelete workspace_name))
     \<and> bulk_delete None workspace_name = Inr (MixinBulkDelete workspace_name)"
proof -
  from assms(1) have ne: "body \<noteq> []" by auto
  have a: "bulk_delete (Some (PDict body)) workspace_name =
           Inr (PerformBulkDelete (PList sevs) ''severity'' workspace_name)"
    using assms(1) ne by (simp add: bulk_delete_def)
  note b = bulk_delete_query_severity [where get_workspace = get_workspace
      and workspace_name = workspace_name and ws = ws, OF assms(2), of cls sevs]
  have c: "perform_bulk_delete orm get_workspace cls (PList sevs) ''severity'' workspace_name =
           Inr (filter (\<lambda>v. \<not> (v_workspace_id v = w_id ws \<and> PStr (v_severity v) \<in> set sevs))
                  (table_rows orm cls))"
    unfolding perform_bulk_delete_def b entities_severity_query sum.case
    by (simp only: filter_not_in_filter)
  have d: "\<forall>body'. map_of body' ''severities'' = None \<longrightarrow>
           bulk_delete (Some (PDict body')) workspace_name = Inr (MixinBulkDelete workspace_name)"
    by (simp add: bulk_delete_def)
  have e: "bulk_delete None workspace_name = Inr (MixinBulkDelete workspace_name)"
    by (simp add: bulk_delete_def)
  from a b c d e show ?thesis by blast
qed

text \<open>
  On the example table, deleting \<^verbatim>\<open>high\<close> and \<^verbatim>\<open>low\<close> in workspace 1 removes the
  vulnerability 10 and keeps 20 (\<^verbatim>\<open>low\<close>, but of workspace 2) and 30 (\<^verbatim>\<open>medium\<close>).
\<close>

theorem bulk_delete_by_severities_witness:
  "map_of [(''severities'', PList [PStr ''high'', PStr ''low''])] ''severities'' =
      Some (PList [PStr ''high'', PStr ''low''])
   \<and> example_get_workspace ''ws1'' = Inr ws1
   \<and> bulk_delete (Some (PDict [(''severities'', PList [PStr ''high'', PStr ''low''])])) ''ws1'' =
       Inr (PerformBulkDelete (PList [PStr ''high'', PStr ''low'']) ''severity'' ''ws1'')
   \<and> perform_bulk_delete (example_orm ''linux'' 1) example_get_workspace VulnerabilityGeneric
        (PList [PStr ''high'', PStr ''low'']) ''severity'' ''ws1'' = Inr [vuln2, vuln3]
   \<and> map_of [(''ids'', PList [PInt 10])] ''severities'' = None
   \<and> bulk_delete (Some (PDict [(''ids'', PList [PInt 10])])) ''ws1'' =
       Inr (MixinBulkDelete ''ws1'')"
proof -
  have m: "map_of [(''severities'', PList [PStr ''high'', PStr ''low''])] ''severities'' =
      Some (PList [PStr ''high'', PStr ''low''])"
    by simp
  have w: "example_get_workspace ''ws1'' = Inr ws1"
    by (simp add: example_get_workspace_def)
  have n: "map_of [(''ids'', PList [PInt 10])] ''severities'' = None"
    by simp
  note main = bulk_delete_by_severities [where get_workspace = example_get_workspace
      and workspace_name = "''ws1''" and ws = ws1
      and body = "[(''severities'', PList [PStr ''high'', PStr ''low''])]"
      and sevs = "[PStr ''high'', PStr ''low'']"
      and orm = "example_orm ''linux'' 1" and cls = VulnerabilityGeneric, OF m w]
  from main have p: "perform_bulk_delete (example_orm ''linux'' 1) example_get_workspace
        VulnerabilityGeneric (PList [PStr ''high'', PStr ''low'']) ''severity'' ''ws1'' =
      Inr (filter (\<lambda>v. \<not> (v_workspace_id v = w_id ws1
                \<and> PStr (v_severity v) \<in> set [PStr ''high'', PStr ''low'']))
             (table_rows (example_orm ''linux'' 1) VulnerabilityGeneric))"
    by blast
  have p': "perform_bulk_delete (example_orm ''linux'' 1) example_get_workspace
        VulnerabilityGeneric (PList [PStr ''high'', PStr ''low'']) ''severity'' ''ws1'' =
      Inr [vuln2, vuln3]"
    unfolding p by (simp add: example_orm_def vuln1_def vuln2_def vuln3_def ws1_def)
  from main have d: "bulk_delete (Some (PDict [(''ids'', PList [PInt 10])])) ''ws1'' =
       Inr (MixinBulkDelete ''ws1'')"
    using n by blast
  from main m w p' n d show ?thesis by blast
qed

section \<open>Properties of the attachment file names\<close>















end
